theory Spec2Isabelle
  imports Main "HOL-Library.FSet" "HOL-Library.Sublist"
begin

section \<open>Course management: the request handlers of Task1/views.py\<close>

text \<open>
  The views of the application are embedded as functions from the store (the three
  tables the views read and write), the authenticated user and the submitted form to an
  outcome: the HTTP response, the flash messages queued with \<^verbatim>\<open>messages\<close>, the user
  handed to \<^verbatim>\<open>login\<close> (if any) and the store after the request.

  The model classes (\<^verbatim>\<open>User\<close>, \<^verbatim>\<open>Course\<close>, \<^verbatim>\<open>Student\<close>) are declared in
  \<^verbatim>\<open>models.py\<close>, which is not among the sources. Their rows are the records below, with
  the attributes the views use. What the declarations alone decide (how a form text is
  read as a primary key or as a number of credits, and which exception is raised when it
  cannot be; how a username, an email and a password are stored; whether emails are
  unique) is a parameter of every view, the record \<open>schema\<close>: each theorem holds for
  every schema.
\<close>

subsection \<open>Rows, store, forms\<close>

record user =
  user_id :: nat
  username :: string
  email :: string
  password :: string
  role :: string

record course =
  course_id :: nat
  course_name :: string
  course_code :: string
  credits :: int
  instructor :: nat

text \<open>
  A student profile belongs to one user (\<^verbatim>\<open>request.user.student_profile\<close>) and holds the
  many-to-many relation \<^verbatim>\<open>courses\<close>: the set of the ids of the enrolled courses.
\<close>

record student =
  student_user :: nat
  courses :: "nat fset"

text \<open>
  The three tables, and for the two tables with automatic keys the last key issued: a
  key is issued once, also when its row has been deleted since.
\<close>

record db =
  users :: "user list"
  students :: "student list"
  course_rows :: "course list"
  user_seq :: nat
  course_seq :: nat

text \<open>\<^verbatim>\<open>request.POST\<close>: \<^verbatim>\<open>request.POST.get(k)\<close> is \<open>post k\<close>, \<open>None\<close> for a missing key.\<close>

type_synonym form = "string \<Rightarrow> string option"

text \<open>
  The exceptions of the store that the views catch or let through:
  \<^verbatim>\<open>Course.DoesNotExist\<close>, a form text that a field cannot read as a number and a number
  that is too large for its column (both carry the text), and a violated constraint of a
  table.
\<close>

datatype exn = DoesNotExist | ValueError string | OverflowError string | IntegrityError

text \<open>
  What a field makes of a form text: the value it reads, or the exception it raises (for
  a text that is no number, for a number that the column cannot hold). What the user
  manager stores of a username, an email and a password: their normal forms and the
  hash. Whether the user table takes the same email twice.
\<close>

record schema =
  make_password :: "string \<Rightarrow> string"
  normalize_username :: "string \<Rightarrow> string"
  normalize_email :: "string \<Rightarrow> string"
  unique_email :: bool
  pk_of_text :: "string \<Rightarrow> exn + nat"
  credits_of_text :: "string \<Rightarrow> exn + int"

text \<open>
  \<^verbatim>\<open>messages.success(request, t)\<close>, \<^verbatim>\<open>messages.error(request, t)\<close> and
  \<^verbatim>\<open>messages.error(request, str(e))\<close>.
\<close>

datatype message = Success string | Failure string | Failure_of exn

datatype ctx = Text string | Text_of exn | Course_list "course list" | Flag bool

text \<open>
  \<^verbatim>\<open>redirect(name)\<close>, \<^verbatim>\<open>render(request, template, context)\<close>, and an exception that no
  handler of the view catches.
\<close>

datatype response = Redirect string | Render string "(string \<times> ctx) list" | Uncaught exn

record outcome =
  response :: response
  flashes :: "message list"
  logged_in :: "user option"
  store :: db

subsection \<open>The store's operations\<close>

text \<open>
  \<^verbatim>\<open>User.objects.create_user(username=..., email=..., password=..., role=...)\<close>, the
  method of the user manager (the model class is declared in \<^verbatim>\<open>models.py\<close>, which is not
  among the sources). It normalises the username and the email, hashes the password and
  inserts one row under the next key of the table. The table refuses a username that a
  user has, and an email that a user has where emails are unique: then nothing is
  stored. Otherwise the new row is returned.
\<close>

definition create_user ::
  "schema \<Rightarrow> db \<Rightarrow> string \<Rightarrow> string \<Rightarrow> string \<Rightarrow> string \<Rightarrow> exn + user \<times> db" where
  "create_user S d uname em pw rl =
     (let u = \<lparr>user_id = Suc (user_seq d), username = normalize_username S uname,
                email = normalize_email S em, password = make_password S pw, role = rl\<rparr>
      in if list_ex (\<lambda>r. username r = username u) (users d) \<or>
            (unique_email S \<and> list_ex (\<lambda>r. email r = email u) (users d))
         then Inl IntegrityError
         else Inr (u, d\<lparr>users := users d @ [u], user_seq := Suc (user_seq d)\<rparr>))"

text \<open>\<^verbatim>\<open>user.save()\<close>: the row with the user's id is replaced.\<close>

definition save_user :: "db \<Rightarrow> user \<Rightarrow> db" where
  "save_user d u = d\<lparr>users := map (\<lambda>r. if user_id r = user_id u then u else r) (users d)\<rparr>"

text \<open>
  \<^verbatim>\<open>authenticate(username=..., password=...)\<close>: the user of that name, if the password is the
  stored one.
\<close>

definition authenticate :: "schema \<Rightarrow> db \<Rightarrow> string \<Rightarrow> string \<Rightarrow> user option" where
  "authenticate S d uname pw =
     (case find (\<lambda>u. username u = uname) (users d) of
        None \<Rightarrow> None
      | Some u \<Rightarrow> if password u = make_password S pw then Some u else None)"

text \<open>\<^verbatim>\<open>request.user.student_profile\<close>; \<open>None\<close> where \<^verbatim>\<open>hasattr\<close> is false.\<close>

definition student_profile :: "db \<Rightarrow> user \<Rightarrow> student option" where
  "student_profile d u = find (\<lambda>p. student_user p = user_id u) (students d)"

text \<open>
  \<^verbatim>\<open>Student.objects.create(user=u)\<close>: a profile with no course. The profile is one-to-one
  with its user, so a second profile of the same user is refused by the table.
\<close>

definition Student_objects_create :: "db \<Rightarrow> user \<Rightarrow> exn + db" where
  "Student_objects_create d u =
     (if student_profile d u \<noteq> None then Inl IntegrityError
      else Inr (d\<lparr>students := students d @ [\<lparr>student_user = user_id u, courses = {||}\<rparr>]\<rparr>))"

text \<open>
  The ids in \<^verbatim>\<open>request.user.student_profile.courses\<close>, with \<^verbatim>\<open>count()\<close>, \<^verbatim>\<open>add(course)\<close>
  and \<^verbatim>\<open>remove(course)\<close>; \<^verbatim>\<open>add\<close> of an enrolled course and \<^verbatim>\<open>remove\<close> of a course that is
  not enrolled change nothing.
\<close>

definition enrolled_ids :: "db \<Rightarrow> user \<Rightarrow> nat fset" where
  "enrolled_ids d u = (case student_profile d u of None \<Rightarrow> {||} | Some p \<Rightarrow> courses p)"

definition courses_count :: "db \<Rightarrow> user \<Rightarrow> nat" where
  "courses_count d u = fcard (enrolled_ids d u)"

definition courses_add :: "db \<Rightarrow> user \<Rightarrow> course \<Rightarrow> db" where
  "courses_add d u c =
     d\<lparr>students := map (\<lambda>p. if student_user p = user_id u
                              then p\<lparr>courses := finsert (course_id c) (courses p)\<rparr> else p)
                       (students d)\<rparr>"

definition courses_remove :: "db \<Rightarrow> user \<Rightarrow> course \<Rightarrow> db" where
  "courses_remove d u c =
     d\<lparr>students := map (\<lambda>p. if student_user p = user_id u
                              then p\<lparr>courses := courses p |-| {|course_id c|}\<rparr> else p)
                       (students d)\<rparr>"

text \<open>\<^verbatim>\<open>request.user.student_profile.courses.all()\<close>: the rows of the enrolled courses.\<close>

definition courses_all :: "db \<Rightarrow> user \<Rightarrow> course list" where
  "courses_all d u = filter (\<lambda>c. course_id c |\<in>| enrolled_ids d u) (course_rows d)"

text \<open>
  \<^verbatim>\<open>Course.objects.get(id=course_id)\<close> on the form's value. A missing value matches no row;
  a text that the key field cannot read raises the field's exception before any row is
  looked at.
\<close>

definition Course_objects_get :: "schema \<Rightarrow> db \<Rightarrow> string option \<Rightarrow> exn + course" where
  "Course_objects_get S d cid =
     (case cid of
        None \<Rightarrow> Inl DoesNotExist
      | Some t \<Rightarrow>
          (case pk_of_text S t of
             Inl e \<Rightarrow> Inl e
           | Inr n \<Rightarrow>
               (case find (\<lambda>c. course_id c = n) (course_rows d) of
                  None \<Rightarrow> Inl DoesNotExist
                | Some c \<Rightarrow> Inr c)))"

text \<open>\<^verbatim>\<open>Course.objects.get(id=course_id, instructor=request.user)\<close>.\<close>

definition Course_objects_get_owned :: "schema \<Rightarrow> db \<Rightarrow> string option \<Rightarrow> user \<Rightarrow> exn + course" where
  "Course_objects_get_owned S d cid u =
     (case cid of
        None \<Rightarrow> Inl DoesNotExist
      | Some t \<Rightarrow>
          (case pk_of_text S t of
             Inl e \<Rightarrow> Inl e
           | Inr n \<Rightarrow>
               (case find (\<lambda>c. course_id c = n \<and> instructor c = user_id u) (course_rows d) of
                  None \<Rightarrow> Inl DoesNotExist
                | Some c \<Rightarrow> Inr c)))"

text \<open>
  \<^verbatim>\<open>Course.objects.create(course_name=name, course_code=code, credits=credits,
  instructor=request.user)\<close>: the credits are read by their field first, when the form
  gave any; then the row is inserted with the next key of the table, which refuses a
  missing value.
\<close>

definition Course_objects_create ::
  "schema \<Rightarrow> db \<Rightarrow> string option \<Rightarrow> string option \<Rightarrow> string option \<Rightarrow> user \<Rightarrow> exn + db" where
  "Course_objects_create S d name code cr u =
     (case cr of
        None \<Rightarrow> Inl IntegrityError
      | Some t \<Rightarrow>
          (case credits_of_text S t of
             Inl e \<Rightarrow> Inl e
           | Inr k \<Rightarrow>
               (case (name, code) of
                  (Some n, Some c) \<Rightarrow>
                    Inr (d\<lparr>course_rows := course_rows d @
                           [\<lparr>course_id = Suc (course_seq d), course_name = n,
                             course_code = c, credits = k, instructor = user_id u\<rparr>],
                          course_seq := Suc (course_seq d)\<rparr>)
                | _ \<Rightarrow> Inl IntegrityError)))"

text \<open>\<^verbatim>\<open>course.save()\<close>: the row with the course's id is replaced.\<close>

definition course_save :: "db \<Rightarrow> course \<Rightarrow> db" where
  "course_save d c =
     d\<lparr>course_rows := map (\<lambda>r. if course_id r = course_id c then c else r) (course_rows d)\<rparr>"

text \<open>
  \<^verbatim>\<open>course.delete()\<close>: the row goes, and with it the enrollments in the course (the rows
  of the many-to-many relation that refer to it).
\<close>

definition course_delete :: "db \<Rightarrow> course \<Rightarrow> db" where
  "course_delete d c =
     d\<lparr>course_rows := filter (\<lambda>r. course_id r \<noteq> course_id c) (course_rows d),
       students := map (\<lambda>p. p\<lparr>courses := courses p |-| {|course_id c|}\<rparr>) (students d)\<rparr>"

subsection \<open>Python's strings\<close>

text \<open>
  \<^verbatim>\<open>str.lower\<close> on the letters A to Z; every other character is kept. (No character
  outside A to Z is lowered to a letter of \<^verbatim>\<open>student\<close>, the only word the views compare a
  lowered text with.)
\<close>

definition lower_char :: "char \<Rightarrow> char" where
  "lower_char c =
     (let n = (of_char c :: nat) in if 65 \<le> n \<and> n \<le> 90 then char_of (n + 32) else c)"

definition lower :: "string \<Rightarrow> string" where
  "lower s = map lower_char s"

subsection \<open>LoginView.post\<close>

definition LoginView_post :: "schema \<Rightarrow> db \<Rightarrow> form \<Rightarrow> outcome" where
  "LoginView_post S d post =
     (case (post ''username'', post ''password'') of
        (Some uname, Some pw) \<Rightarrow>
          if uname = [] \<or> pw = [] then
            \<lparr>response = Render ''login.html'' [(''error_message'', Text ''Please fill in all fields'')],
             flashes = [Failure ''Please fill in all fields''], logged_in = None, store = d\<rparr>
          else
            (case authenticate S d uname pw of
               None \<Rightarrow>
                 \<lparr>response = Render ''login.html'' [(''error_message'', Text ''Invalid credentials'')],
                  flashes = [], logged_in = None, store = d\<rparr>
             | Some u0 \<Rightarrow>
                 (let repair = (prefix ''faculty'' uname \<and> role u0 \<noteq> ''Faculty'');
                      u = (if repair then u0\<lparr>role := ''Faculty''\<rparr> else u0);
                      d1 = (if repair then save_user d u else d)
                  in \<lparr>response = (if role u = ''Faculty'' then Redirect ''faculty-dashboard''
                                    else Redirect ''student-dashboard''),
                      flashes = [], logged_in = Some u, store = d1\<rparr>))
      | _ \<Rightarrow>
          \<lparr>response = Render ''login.html'' [(''error_message'', Text ''Please fill in all fields'')],
           flashes = [Failure ''Please fill in all fields''], logged_in = None, store = d\<rparr>)"

subsection \<open>RegisterView.post\<close>

definition register_error :: "db \<Rightarrow> ctx \<Rightarrow> outcome" where
  "register_error d m =
     \<lparr>response = Render ''register.html'' [(''error_message'', m)],
      flashes = [], logged_in = None, store = d\<rparr>"

definition RegisterView_post :: "schema \<Rightarrow> db \<Rightarrow> form \<Rightarrow> outcome" where
  "RegisterView_post S d post =
     (case (post ''username'', post ''email'', post ''password'', post ''role'') of
        (Some uname, Some em, Some pw, Some rl) \<Rightarrow>
          if uname = [] \<or> em = [] \<or> pw = [] \<or> rl = [] then
            register_error d (Text ''Please fill in all required fields'')
          else if list_ex (\<lambda>u. username u = uname) (users d) then
            register_error d (Text ''Username already exists'')
          else if list_ex (\<lambda>u. email u = em) (users d) then
            register_error d (Text ''Email already exists'')
          else
            (case create_user S d uname em pw
                    (if lower rl = ''student'' then ''Student'' else ''Faculty'') of
               Inl e \<Rightarrow> register_error d (Text_of e)
             | Inr (u, d1) \<Rightarrow>
                 (case (if lower rl = ''student'' then Student_objects_create d1 u else Inr d1) of
                    Inl e \<Rightarrow> register_error d1 (Text_of e)
                  | Inr d2 \<Rightarrow>
                      \<lparr>response = Redirect ''login'',
                       flashes = [Success ''Registration successful! Please login with your credentials.''],
                       logged_in = None, store = d2\<rparr>))
      | _ \<Rightarrow> register_error d (Text ''Please fill in all required fields''))"

subsection \<open>StudentDashboardView\<close>

text \<open>
  Both methods start alike: \<^verbatim>\<open>if not hasattr(request.user, 'student_profile'):
  Student.objects.create(user=request.user)\<close>.
\<close>

definition create_missing_profile :: "db \<Rightarrow> user \<Rightarrow> exn + db" where
  "create_missing_profile d u =
     (if student_profile d u = None then Student_objects_create d u else Inr d)"

definition StudentDashboardView_get :: "db \<Rightarrow> user \<Rightarrow> outcome" where
  "StudentDashboardView_get d u =
     (if role u \<noteq> ''Student'' then
        \<lparr>response = Redirect ''login'',
         flashes = [Failure ''Access denied. Student account required.''],
         logged_in = None, store = d\<rparr>
      else
        (case create_missing_profile d u of
           Inl e \<Rightarrow> \<lparr>response = Uncaught e, flashes = [], logged_in = None, store = d\<rparr>
         | Inr d1 \<Rightarrow>
             (let enrolled_courses = courses_all d1 u;
                  available_courses =
                    filter (\<lambda>c. course_id c \<notin> set (map course_id enrolled_courses)) (course_rows d1)
              in \<lparr>response = Render ''student-dashboard.html''
                     [(''enrolled_courses'', Course_list enrolled_courses),
                      (''available_courses'', Course_list available_courses),
                      (''can_enroll'', Flag (length enrolled_courses < 2))],
                  flashes = [], logged_in = None, store = d1\<rparr>)))"

text \<open>
  The \<^verbatim>\<open>try\<close> block of \<^verbatim>\<open>post\<close> with its two handlers: the messages it queues and
  the store it leaves, from the store in which the profile exists.
\<close>

definition enroll_or_drop :: "schema \<Rightarrow> db \<Rightarrow> user \<Rightarrow> form \<Rightarrow> message list \<times> db" where
  "enroll_or_drop S d1 u post =
     (let action = post ''action''; cid = post ''course_id''
      in case Course_objects_get S d1 cid of
           Inr c \<Rightarrow>
             if action = Some ''enroll'' then
               (if courses_count d1 u \<ge> 2 then
                  ([Failure ''You cannot enroll in more than 2 courses.''], d1)
                else
                  ([Success (''Successfully enrolled in '' @ course_name c)],
                   courses_add d1 u c))
             else if action = Some ''drop'' then
               ([Success (''Successfully dropped '' @ course_name c)],
                courses_remove d1 u c)
             else ([], d1)
         | Inl DoesNotExist \<Rightarrow> ([Failure ''Course not found''], d1)
         | Inl e \<Rightarrow> ([Failure_of e], d1))"

definition StudentDashboardView_post :: "schema \<Rightarrow> db \<Rightarrow> user \<Rightarrow> form \<Rightarrow> outcome" where
  "StudentDashboardView_post S d u post =
     (if role u \<noteq> ''Student'' then
        \<lparr>response = Redirect ''login'',
         flashes = [Failure ''Access denied. Student account required.''],
         logged_in = None, store = d\<rparr>
      else
        (case create_missing_profile d u of
           Inl e \<Rightarrow> \<lparr>response = Uncaught e, flashes = [], logged_in = None, store = d\<rparr>
         | Inr d1 \<Rightarrow>
             (let (msgs, d2) = enroll_or_drop S d1 u post
              in \<lparr>response = Redirect ''student-dashboard'', flashes = msgs,
                  logged_in = None, store = d2\<rparr>)))"

subsection \<open>FacultyDashboardView\<close>

definition FacultyDashboardView_get :: "db \<Rightarrow> user \<Rightarrow> outcome" where
  "FacultyDashboardView_get d u =
     (if role u \<noteq> ''Faculty'' then
        \<lparr>response = Redirect ''login'',
         flashes = [Failure ''Access denied. Faculty account required.''],
         logged_in = None, store = d\<rparr>
      else
        \<lparr>response = Render ''faculty-dashboard.html''
           [(''courses'', Course_list (filter (\<lambda>c. instructor c = user_id u) (course_rows d)))],
         flashes = [], logged_in = None, store = d\<rparr>)"

text \<open>Python's truth value of \<^verbatim>\<open>request.POST.get('course_id')\<close>: a non-empty text.\<close>

definition truthy :: "string option \<Rightarrow> bool" where
  "truthy v = (case v of None \<Rightarrow> False | Some t \<Rightarrow> t \<noteq> [])"

text \<open>
  The \<^verbatim>\<open>update\<close> branch inside its \<^verbatim>\<open>try\<close>, after the lookup: the three assignments
  \<^verbatim>\<open>request.POST.get(k, course.k)\<close> and \<^verbatim>\<open>course.save()\<close>, which reads the credits if
  the form gave them.
\<close>

definition update_course :: "schema \<Rightarrow> db \<Rightarrow> course \<Rightarrow> form \<Rightarrow> exn + db" where
  "update_course S d c post =
     (let name = (case post ''name'' of None \<Rightarrow> course_name c | Some t \<Rightarrow> t);
          code = (case post ''code'' of None \<Rightarrow> course_code c | Some t \<Rightarrow> t)
      in case post ''credits'' of
           None \<Rightarrow> Inr (course_save d (c\<lparr>course_name := name, course_code := code\<rparr>))
         | Some t \<Rightarrow>
             (case credits_of_text S t of
                Inl e \<Rightarrow> Inl e
              | Inr k \<Rightarrow>
                  Inr (course_save d (c\<lparr>course_name := name, course_code := code, credits := k\<rparr>))))"

definition FacultyDashboardView_post :: "schema \<Rightarrow> db \<Rightarrow> user \<Rightarrow> form \<Rightarrow> outcome" where
  "FacultyDashboardView_post S d u post =
     (if role u \<noteq> ''Faculty'' then
        \<lparr>response = Redirect ''login'',
         flashes = [Failure ''Access denied. Faculty account required.''],
         logged_in = None, store = d\<rparr>
      else
        (let action = post ''action''; cid = post ''course_id'';
             reply = (\<lambda>msgs d'. \<lparr>response = Redirect ''faculty-dashboard'', flashes = msgs,
                                logged_in = None, store = d'\<rparr>)
         in if action = Some ''create'' then
              (case Course_objects_create S d (post ''name'') (post ''code'') (post ''credits'') u of
                 Inr d1 \<Rightarrow>
                   reply [Success (''Successfully created course '' @
                                   (case post ''name'' of None \<Rightarrow> ''None'' | Some n \<Rightarrow> n))] d1
               | Inl e \<Rightarrow> reply [Failure_of e] d)
            else if action = Some ''delete'' \<and> truthy cid then
              (case Course_objects_get_owned S d cid u of
                 Inr c \<Rightarrow> reply [Success ''Course deleted successfully''] (course_delete d c)
               | Inl DoesNotExist \<Rightarrow> reply [Failure ''Course not found''] d
               | Inl e \<Rightarrow> \<lparr>response = Uncaught e, flashes = [], logged_in = None, store = d\<rparr>)
            else if action = Some ''update'' \<and> truthy cid then
              (case (case Course_objects_get_owned S d cid u of
                       Inl e \<Rightarrow> Inl e
                     | Inr c \<Rightarrow> update_course S d c post) of
                 Inr d1 \<Rightarrow> reply [Success ''Course updated successfully''] d1
               | Inl DoesNotExist \<Rightarrow> reply [Failure ''Course not found''] d
               | Inl e \<Rightarrow> reply [Failure_of e] d)
            else reply [] d))"

subsection \<open>Requests in sequence\<close>

text \<open>
  \<^verbatim>\<open>request.user\<close> is the row of the session's user; both dashboards are behind
  \<^verbatim>\<open>LoginRequiredMixin\<close> with \<^verbatim>\<open>login_url = '/login/'\<close>, which turns a request without such a
  user away before the view runs.
\<close>

definition request_user :: "db \<Rightarrow> nat option \<Rightarrow> user option" where
  "request_user d sess =
     (case sess of None \<Rightarrow> None | Some uid \<Rightarrow> find (\<lambda>u. user_id u = uid) (users d))"

definition login_required :: "db \<Rightarrow> nat option \<Rightarrow> (user \<Rightarrow> outcome) \<Rightarrow> outcome" where
  "login_required d sess view =
     (case request_user d sess of
        None \<Rightarrow> \<lparr>response = Redirect ''/login/'', flashes = [], logged_in = None, store = d\<rparr>
      | Some u \<Rightarrow> view u)"

datatype request =
  Login_post form | Register_post form
  | Student_get | Student_post form
  | Faculty_get | Faculty_post form

fun dispatch :: "schema \<Rightarrow> db \<Rightarrow> nat option \<Rightarrow> request \<Rightarrow> outcome" where
  "dispatch S d sess (Login_post post) = LoginView_post S d post"
| "dispatch S d sess (Register_post post) = RegisterView_post S d post"
| "dispatch S d sess Student_get = login_required d sess (StudentDashboardView_get d)"
| "dispatch S d sess (Student_post post) =
     login_required d sess (\<lambda>u. StudentDashboardView_post S d u post)"
| "dispatch S d sess Faculty_get = login_required d sess (FacultyDashboardView_get d)"
| "dispatch S d sess (Faculty_post post) =
     login_required d sess (\<lambda>u. FacultyDashboardView_post S d u post)"

text \<open>The store after a sequence of requests, each with the user id of its session.\<close>

fun serve :: "schema \<Rightarrow> db \<Rightarrow> (nat option \<times> request) list \<Rightarrow> db" where
  "serve S d [] = d"
| "serve S d ((sess, r) # rs) = serve S (store (dispatch S d sess r)) rs"

subsection \<open>Properties of a store and of a form\<close>

text \<open>No profile holds more than two courses.\<close>

definition within_limit :: "db \<Rightarrow> bool" where
  "within_limit d = list_all (\<lambda>p. fcard (courses p) \<le> 2) (students d)"

text \<open>
  Constraints of the tables: a user has at most one profile (the profile is one-to-one
  with its user), a course id names one course row, and every profile belongs to a user
  of the store.
\<close>

definition one_profile_each :: "db \<Rightarrow> bool" where
  "one_profile_each d = distinct (map student_user (students d))"

text \<open>What every request keeps: the limit, with one profile for each user.\<close>

definition enrollment_inv :: "db \<Rightarrow> bool" where
  "enrollment_inv d = (within_limit d \<and> one_profile_each d)"

definition course_ids_unique :: "db \<Rightarrow> bool" where
  "course_ids_unique d = distinct (map course_id (course_rows d))"

definition profiles_have_users :: "db \<Rightarrow> bool" where
  "profiles_have_users d =
     (set (map student_user (students d)) \<subseteq> set (map user_id (users d)))"

text \<open>
  The last key issued for a user is not below the key of any user, and likewise for the
  courses.
\<close>

definition user_keys_issued :: "db \<Rightarrow> bool" where
  "user_keys_issued d = list_all (\<lambda>u. user_id u \<le> user_seq d) (users d)"

definition course_keys_issued :: "db \<Rightarrow> bool" where
  "course_keys_issued d = list_all (\<lambda>c. course_id c \<le> course_seq d) (course_rows d)"

text \<open>
  What a request keeps of the courses, from the store before to the store after: every
  course of the store after either has a key issued since, or has the key and the
  instructor of a course of the store before.
\<close>

definition instructors_kept :: "db \<Rightarrow> db \<Rightarrow> bool" where
  "instructors_kept d d' =
     (course_seq d \<le> course_seq d' \<and>
      list_all (\<lambda>c'. course_seq d < course_id c' \<or>
                  list_ex (\<lambda>c. course_id c = course_id c' \<and> instructor c = instructor c')
                    (course_rows d))
        (course_rows d'))"

text \<open>
  The first test of \<^verbatim>\<open>RegisterView.post\<close>,
  \<^verbatim>\<open>all([username, email, password, role])\<close>, and its two queries
  \<^verbatim>\<open>User.objects.filter(...).exists()\<close>.
\<close>

definition fields_present :: "form \<Rightarrow> bool" where
  "fields_present post =
     list_all truthy [post ''username'', post ''email'', post ''password'', post ''role'']"

definition username_exists :: "db \<Rightarrow> form \<Rightarrow> bool" where
  "username_exists d post =
     (case post ''username'' of None \<Rightarrow> False
      | Some n \<Rightarrow> list_ex (\<lambda>u. username u = n) (users d))"

definition email_exists :: "db \<Rightarrow> form \<Rightarrow> bool" where
  "email_exists d post =
     (case post ''email'' of None \<Rightarrow> False
      | Some e \<Rightarrow> list_ex (\<lambda>u. email u = e) (users d))"

subsection \<open>A schema and a store to run the views on\<close>

text \<open>
  A schema for the examples: it reads a key or a number of credits written in decimal
  digits only, and nothing above the largest value of a 64-bit column. (Python's
  \<^verbatim>\<open>int\<close> reads more: a sign, blanks around the digits. The examples use plain
  digits.) Its password hash is visibly not the password. Emails need not be unique,
  and an email is kept as it is (the examples use lower-case domains, which the
  manager keeps).

  Of the normal form of a username (Unicode's NFKC) it has the part the examples use:
  a full-width Latin letter, the three bytes \<open>EF BC A1\<close> to \<open>EF BC BA\<close> and
  \<open>EF BD 81\<close> to \<open>EF BD 9A\<close> in UTF-8, becomes the plain letter; ASCII text is its own
  normal form.
\<close>

fun plain_letters :: "string \<Rightarrow> string" where
  "plain_letters (a # b # c # cs) =
     (let x = (of_char a :: nat); y = (of_char b :: nat); z = (of_char c :: nat)
      in if x = 239 \<and> y = 188 \<and> 161 \<le> z \<and> z \<le> 186
           then char_of (z - 96) # plain_letters cs
         else if x = 239 \<and> y = 189 \<and> 129 \<le> z \<and> z \<le> 154
           then char_of (z - 32) # plain_letters cs
         else a # plain_letters (b # c # cs))"
| "plain_letters cs = cs"

definition digit_of :: "char \<Rightarrow> nat option" where
  "digit_of c =
     (let n = (of_char c :: nat) in if 48 \<le> n \<and> n \<le> 57 then Some (n - 48) else None)"

fun decimal_from :: "nat \<Rightarrow> string \<Rightarrow> nat option" where
  "decimal_from acc [] = Some acc"
| "decimal_from acc (c # cs) =
     (case digit_of c of None \<Rightarrow> None | Some k \<Rightarrow> decimal_from (10 * acc + k) cs)"

definition decimal :: "string \<Rightarrow> nat option" where
  "decimal t = (if t = [] then None else decimal_from 0 t)"

definition read_decimal :: "string \<Rightarrow> exn + nat" where
  "read_decimal t =
     (case decimal t of
        None \<Rightarrow> Inl (ValueError t)
      | Some n \<Rightarrow> if n \<le> 9223372036854775807 then Inr n else Inl (OverflowError t))"

definition decimal_schema :: schema where
  "decimal_schema =
     \<lparr>make_password = (\<lambda>pw. ''sha$'' @ rev pw),
      normalize_username = plain_letters,
      normalize_email = (\<lambda>e. e),
      unique_email = False,
      pk_of_text = read_decimal,
      credits_of_text = (\<lambda>t. map_sum id int (read_decimal t))\<rparr>"

definition alice :: user where
  "alice = \<lparr>user_id = 1, username = ''alice'', email = ''a@x.com'',
            password = ''sha$wp'', role = ''Student''\<rparr>"

definition faculty_jane :: user where
  "faculty_jane = \<lparr>user_id = 2, username = ''faculty_jane'', email = ''jane@x.com'',
                   password = ''sha$wp'', role = ''Student''\<rparr>"

definition bob :: user where
  "bob = \<lparr>user_id = 3, username = ''bob'', email = ''bob@x.com'',
          password = ''sha$wp'', role = ''Faculty''\<rparr>"

definition carol :: user where
  "carol = \<lparr>user_id = 4, username = ''carol'', email = ''carol@x.com'',
            password = ''sha$wp'', role = ''Faculty''\<rparr>"

definition dave :: user where
  "dave = \<lparr>user_id = 5, username = ''dave'', email = ''dave@x.com'',
           password = ''sha$wp'', role = ''Student''\<rparr>"

definition logic :: course where
  "logic = \<lparr>course_id = 1, course_name = ''Logic'', course_code = ''L101'', credits = 4,
            instructor = 3\<rparr>"

definition algebra :: course where
  "algebra = \<lparr>course_id = 2, course_name = ''Algebra'', course_code = ''A201'', credits = 3,
              instructor = 3\<rparr>"

definition optics :: course where
  "optics = \<lparr>course_id = 3, course_name = ''Optics'', course_code = ''O301'', credits = 2,
             instructor = 4\<rparr>"

definition campus :: db where
  "campus =
     \<lparr>users = [alice, faculty_jane, bob, carol, dave],
      students = [\<lparr>student_user = 1, courses = {|1, 2|}\<rparr>],
      course_rows = [logic, algebra, optics],
      user_seq = 5, course_seq = 3\<rparr>"


section \<open>Properties\<close>

subsection \<open>Lists, profiles, lookups\<close>

lemma find_map_same:
  "(\<And>x. P (f x) = P x) \<Longrightarrow> find P (map f xs) = map_option f (find P xs)"
  by (induction xs) auto

lemma find_append_eq:
  "find P (xs @ ys) = (case find P xs of None \<Rightarrow> find P ys | Some x \<Rightarrow> Some x)"
  by (induction xs) auto

lemma find_SomeD: "find P xs = Some x \<Longrightarrow> P x \<and> x \<in> set xs"
  by (induction xs) (auto split: if_splits)

lemma create_missing_profile_eq:
  "create_missing_profile d u =
     Inr (if student_profile d u = None
          then d\<lparr>students := students d @ [\<lparr>student_user = user_id u, courses = {||}\<rparr>]\<rparr>
          else d)"
  by (simp add: create_missing_profile_def Student_objects_create_def)

lemma enrolled_ids_new_profile:
  "student_profile d u = None \<Longrightarrow>
     enrolled_ids (d\<lparr>students := students d @ [\<lparr>student_user = user_id u, courses = {||}\<rparr>]\<rparr>) v
       = enrolled_ids d v"
  by (auto simp: enrolled_ids_def student_profile_def find_append_eq split: option.splits)

lemma student_profile_remove:
  "student_profile (courses_remove d u c) v =
     map_option (\<lambda>p. if student_user p = user_id u
                       then p\<lparr>courses := courses p |-| {|course_id c|}\<rparr> else p)
       (student_profile d v)"
  unfolding student_profile_def courses_remove_def
  by (simp add: find_map_same)

lemma student_profile_add:
  "student_profile (courses_add d u c) v =
     map_option (\<lambda>p. if student_user p = user_id u
                       then p\<lparr>courses := finsert (course_id c) (courses p)\<rparr> else p)
       (student_profile d v)"
  unfolding student_profile_def courses_add_def
  by (simp add: find_map_same)

lemma student_profile_user: "student_profile d v = Some p \<Longrightarrow> student_user p = user_id v"
  unfolding student_profile_def by (drule find_SomeD) simp

lemma enrolled_ids_remove:
  "enrolled_ids (courses_remove d u c) v =
     (if user_id v = user_id u then enrolled_ids d v |-| {|course_id c|} else enrolled_ids d v)"
proof (cases "student_profile d v")
  case None
  then show ?thesis by (simp add: enrolled_ids_def student_profile_remove)
next
  case (Some p)
  with student_profile_user [OF Some] show ?thesis
    by (simp add: enrolled_ids_def student_profile_remove)
qed

lemma enrolled_ids_add:
  "enrolled_ids (courses_add d u c) v =
     (if user_id v = user_id u \<and> student_profile d v \<noteq> None
      then finsert (course_id c) (enrolled_ids d v) else enrolled_ids d v)"
proof (cases "student_profile d v")
  case None
  then show ?thesis by (simp add: enrolled_ids_def student_profile_add)
next
  case (Some p)
  with student_profile_user [OF Some] show ?thesis
    by (simp add: enrolled_ids_def student_profile_add)
qed

lemma Course_objects_get_rows:
  "course_rows d' = course_rows d \<Longrightarrow> Course_objects_get S d' cid = Course_objects_get S d cid"
  by (simp add: Course_objects_get_def split: option.splits sum.splits)

lemma Course_objects_get_miss:
  "cid = None \<or> (\<exists>t n. cid = Some t \<and> pk_of_text S t = Inr n \<and> n \<notin> course_id ` set (course_rows d))
   \<Longrightarrow> Course_objects_get S d cid = Inl DoesNotExist"
  by (auto simp: Course_objects_get_def split: option.splits sum.splits dest!: find_SomeD)

lemma Course_objects_get_unread:
  "pk_of_text S t = Inl e \<Longrightarrow> Course_objects_get S d (Some t) = Inl e"
  by (simp add: Course_objects_get_def)

subsection \<open>The example store\<close>

lemma digits_1: "decimal ''1'' = Some 1"
  by code_simp

lemma digits_3: "decimal ''3'' = Some 3"
  by code_simp

lemma digits_9: "decimal ''9'' = Some 9"
  by code_simp

lemma digits_abc: "decimal ''abc'' = None"
  by code_simp

lemma decimal_1: "read_decimal ''1'' = Inr 1"
  by (simp add: read_decimal_def digits_1)

lemma decimal_3: "read_decimal ''3'' = Inr 3"
  by (simp add: read_decimal_def digits_3)

lemma decimal_9: "read_decimal ''9'' = Inr 9"
  by (simp add: read_decimal_def digits_9)

lemma decimal_abc: "read_decimal ''abc'' = Inl (ValueError ''abc'')"
  by (simp add: read_decimal_def digits_abc)

lemma decimal_empty: "read_decimal [] = Inl (ValueError [])"
  by (simp add: read_decimal_def decimal_def)

lemma campus_get_1: "Course_objects_get decimal_schema campus (Some ''1'') = Inr logic"
  by (simp add: Course_objects_get_def decimal_schema_def decimal_1 campus_def logic_def)

lemma campus_get_3: "Course_objects_get decimal_schema campus (Some ''3'') = Inr optics"
  by (simp add: Course_objects_get_def decimal_schema_def decimal_3 campus_def logic_def
      algebra_def optics_def)

lemma campus_alice_ids: "enrolled_ids campus alice = {|1, 2|}"
  by (simp add: enrolled_ids_def student_profile_def campus_def alice_def)


subsection \<open>The tests of the registration\<close>

lemma fields_presentD:
  "fields_present post \<Longrightarrow>
     \<exists>uname em pw rl. post ''username'' = Some uname \<and> post ''email'' = Some em \<and>
        post ''password'' = Some pw \<and> post ''role'' = Some rl \<and>
        uname \<noteq> [] \<and> em \<noteq> [] \<and> pw \<noteq> [] \<and> rl \<noteq> []"
  by (auto simp: fields_present_def truthy_def split: option.splits)

lemma register_missing:
  "\<not> fields_present post \<Longrightarrow>
     RegisterView_post S d post = register_error d (Text ''Please fill in all required fields'')"
  by (auto simp: RegisterView_post_def fields_present_def truthy_def split: option.splits)

lemma register_dup_user:
  assumes "fields_present post" "username_exists d post"
  shows "RegisterView_post S d post = register_error d (Text ''Username already exists'')"
proof -
  from fields_presentD [OF assms(1)] obtain uname em pw rl where
    "post ''username'' = Some uname" "post ''email'' = Some em"
    "post ''password'' = Some pw" "post ''role'' = Some rl"
    "uname \<noteq> []" "em \<noteq> []" "pw \<noteq> []" "rl \<noteq> []" by blast
  with assms(2) show ?thesis
    by (simp add: RegisterView_post_def username_exists_def)
qed

lemma register_dup_email:
  assumes "fields_present post" "\<not> username_exists d post" "email_exists d post"
  shows "RegisterView_post S d post = register_error d (Text ''Email already exists'')"
proof -
  from fields_presentD [OF assms(1)] obtain uname em pw rl where
    "post ''username'' = Some uname" "post ''email'' = Some em"
    "post ''password'' = Some pw" "post ''role'' = Some rl"
    "uname \<noteq> []" "em \<noteq> []" "pw \<noteq> []" "rl \<noteq> []" by blast
  with assms(2,3) show ?thesis
    by (simp add: RegisterView_post_def username_exists_def email_exists_def)
qed


subsection \<open>The student dashboard and the limit\<close>

lemma enroll_at_limit:
  assumes "role u = ''Student''" "2 \<le> courses_count d u" "post ''action'' = Some ''enroll''"
    "Course_objects_get S d (post ''course_id'') = Inr c"
  shows "StudentDashboardView_post S d u post =
     \<lparr>response = Redirect ''student-dashboard'',
      flashes = [Failure ''You cannot enroll in more than 2 courses.''],
      logged_in = None, store = d\<rparr>"
proof -
  from assms(2) obtain p where "student_profile d u = Some p"
    by (cases "student_profile d u") (simp_all add: courses_count_def enrolled_ids_def fcard_fempty)
  with assms show ?thesis
    by (simp add: StudentDashboardView_post_def create_missing_profile_eq enroll_or_drop_def)
qed

lemma within_limit_new_profile:
  "within_limit d \<Longrightarrow>
   within_limit (d\<lparr>students := students d @ [\<lparr>student_user = i, courses = {||}\<rparr>]\<rparr>)"
  by (simp add: within_limit_def fcard_fempty)

lemma fcard_fminus1_limit: "fcard A \<le> n \<Longrightarrow> fcard (A |-| {|x|}) \<le> n"
  using fcard_fminus1_le [of A x] by simp

lemma within_limit_remove: "within_limit d \<Longrightarrow> within_limit (courses_remove d u c)"
  by (auto simp: within_limit_def courses_remove_def list_all_iff fcard_fminus1_limit)

lemma within_limit_delete: "within_limit d \<Longrightarrow> within_limit (course_delete d c)"
  by (auto simp: within_limit_def course_delete_def list_all_iff fcard_fminus1_limit)


lemma enroll_or_drop_store:
  "snd (enroll_or_drop S d1 u post) = d1 \<or>
   (\<exists>c. snd (enroll_or_drop S d1 u post) = courses_remove d1 u c) \<or>
   (\<exists>c. courses_count d1 u < 2 \<and> snd (enroll_or_drop S d1 u post) = courses_add d1 u c)"
proof (cases "Course_objects_get S d1 (post ''course_id'')")
  case (Inl e)
  then show ?thesis by (cases e) (simp_all add: enroll_or_drop_def)
next
  case (Inr c)
  then show ?thesis by (auto simp: enroll_or_drop_def Let_def)
qed

lemma enroll_or_drop_dropped:
  "Course_objects_get S d1 (post ''course_id'') = Inr c \<Longrightarrow> post ''action'' = Some ''drop'' \<Longrightarrow>
   enroll_or_drop S d1 u post =
     ([Success (''Successfully dropped '' @ course_name c)], courses_remove d1 u c)"
  by (simp add: enroll_or_drop_def)

lemma enroll_or_drop_not_found:
  "Course_objects_get S d1 (post ''course_id'') = Inl DoesNotExist \<Longrightarrow>
   enroll_or_drop S d1 u post = ([Failure ''Course not found''], d1)"
  by (simp add: enroll_or_drop_def)

lemma enroll_or_drop_raised:
  "Course_objects_get S d1 (post ''course_id'') = Inl e \<Longrightarrow>
   enroll_or_drop S d1 u post =
     (if e = DoesNotExist then [Failure ''Course not found''] else [Failure_of e], d1)"
  by (cases e) (simp_all add: enroll_or_drop_def)

lemma student_post_eq:
  "role u = ''Student'' \<Longrightarrow>
   StudentDashboardView_post S d u post =
     \<lparr>response = Redirect ''student-dashboard'',
      flashes = fst (enroll_or_drop S
        (if student_profile d u = None
         then d\<lparr>students := students d @ [\<lparr>student_user = user_id u, courses = {||}\<rparr>]\<rparr>
         else d) u post),
      logged_in = None,
      store = snd (enroll_or_drop S
        (if student_profile d u = None
         then d\<lparr>students := students d @ [\<lparr>student_user = user_id u, courses = {||}\<rparr>]\<rparr>
         else d) u post)\<rparr>"
  by (simp add: StudentDashboardView_post_def create_missing_profile_eq split_beta
      del: if_split cong: if_cong)

subsection \<open>Every request keeps the limit\<close>

lemma inv_new_profile:
  "enrollment_inv d \<Longrightarrow> student_profile d u = None \<Longrightarrow>
   enrollment_inv (d\<lparr>students := students d @ [\<lparr>student_user = user_id u, courses = {||}\<rparr>]\<rparr>)"
  by (auto simp: enrollment_inv_def within_limit_def one_profile_each_def fcard_fempty
      student_profile_def find_None_iff)

lemma inv_remove: "enrollment_inv d \<Longrightarrow> enrollment_inv (courses_remove d u c)"
  unfolding enrollment_inv_def using within_limit_remove [of d u c]
  by (simp add: one_profile_each_def courses_remove_def o_def if_distrib cong: if_cong)

lemma inv_delete: "enrollment_inv d \<Longrightarrow> enrollment_inv (course_delete d c)"
  unfolding enrollment_inv_def using within_limit_delete [of d c]
  by (simp add: one_profile_each_def course_delete_def o_def)

lemma profile_is_first:
  "distinct (map student_user ps) \<Longrightarrow> p \<in> set ps \<Longrightarrow>
   find (\<lambda>q. student_user q = student_user p) ps = Some p"
  by (induction ps) (auto simp: image_iff)

lemma inv_add:
  assumes "enrollment_inv d" "courses_count d u < 2"
  shows "enrollment_inv (courses_add d u c)"
proof -
  have small: "fcard (finsert (course_id c) (courses p)) \<le> 2"
    if "p \<in> set (students d)" "student_user p = user_id u" for p
  proof -
    from assms(1) that have "student_profile d u = Some p"
      using profile_is_first [of "students d" p]
      by (simp add: enrollment_inv_def one_profile_each_def student_profile_def)
    with assms(2) have "fcard (courses p) < 2"
      by (simp add: courses_count_def enrolled_ids_def)
    then show ?thesis by (simp add: fcard_finsert_if)
  qed
  have ms: "map student_user (students (courses_add d u c)) = map student_user (students d)"
    by (simp add: courses_add_def o_def if_distrib cong: if_cong)
  have "one_profile_each (courses_add d u c)"
    using assms(1) unfolding enrollment_inv_def one_profile_each_def ms by simp
  moreover have "within_limit (courses_add d u c)"
    using assms(1) small
    by (auto simp: enrollment_inv_def within_limit_def courses_add_def list_all_iff)
  ultimately show ?thesis by (simp add: enrollment_inv_def)
qed

lemma inv_student_post:
  assumes "enrollment_inv d"
  shows "enrollment_inv (store (StudentDashboardView_post S d u post))"
proof (cases "role u = ''Student''")
  case False
  with assms show ?thesis by (simp add: StudentDashboardView_post_def)
next
  case True
  let ?d1 = "if student_profile d u = None
          then d\<lparr>students := students d @ [\<lparr>student_user = user_id u, courses = {||}\<rparr>]\<rparr>
          else d"
  have "enrollment_inv ?d1" using assms by (simp add: inv_new_profile)
  with enroll_or_drop_store [of S "?d1" u post] show ?thesis
    unfolding student_post_eq [OF True] by (auto simp: inv_remove inv_add simp del: if_split cong: if_cong)
qed

lemma inv_student_get:
  "enrollment_inv d \<Longrightarrow> enrollment_inv (store (StudentDashboardView_get d u))"
  by (simp add: StudentDashboardView_get_def create_missing_profile_eq Let_def inv_new_profile)

lemma inv_same_students: "students d' = students d \<Longrightarrow> enrollment_inv d' = enrollment_inv d"
  by (simp add: enrollment_inv_def within_limit_def one_profile_each_def)

lemma students_login: "students (store (LoginView_post S d post)) = students d"
  by (simp add: LoginView_post_def save_user_def Let_def split: option.splits)

lemma update_course_students: "update_course S d c post = Inr d' \<Longrightarrow> students d' = students d"
  by (auto simp: update_course_def course_save_def Let_def split: option.splits sum.splits)

lemma create_course_students:
  "Course_objects_create S d a b cr u = Inr d' \<Longrightarrow> students d' = students d"
  by (auto simp: Course_objects_create_def split: option.splits sum.splits)

lemma faculty_post_students:
  "students (store (FacultyDashboardView_post S d u post)) = students d \<or>
   (\<exists>c. store (FacultyDashboardView_post S d u post) = course_delete d c)"
proof (cases "role u = ''Faculty''")
  case False
  then show ?thesis by (simp add: FacultyDashboardView_post_def)
next
  case fac: True
  consider (create) "post ''action'' = Some ''create''"
    | (delete) "post ''action'' = Some ''delete''" "truthy (post ''course_id'')"
    | (update) "post ''action'' = Some ''update''" "truthy (post ''course_id'')"
    | (other) "post ''action'' \<noteq> Some ''create''"
        "\<not> (post ''action'' = Some ''delete'' \<and> truthy (post ''course_id''))"
        "\<not> (post ''action'' = Some ''update'' \<and> truthy (post ''course_id''))"
    by blast
  then show ?thesis
  proof cases
    case create
    with fac show ?thesis
      by (auto simp: FacultyDashboardView_post_def dest: create_course_students
          split: sum.splits)
  next
    case delete
    with fac show ?thesis
      by (auto simp: FacultyDashboardView_post_def split: sum.splits exn.splits)
  next
    case update
    with fac show ?thesis
      by (auto simp: FacultyDashboardView_post_def dest: update_course_students
          split: sum.splits exn.splits)
  next
    case other
    with fac show ?thesis by (auto simp: FacultyDashboardView_post_def)
  qed
qed

lemma inv_faculty_post:
  "enrollment_inv d \<Longrightarrow> enrollment_inv (store (FacultyDashboardView_post S d u post))"
  using faculty_post_students [of S d u post] inv_delete [of d]
    inv_same_students [of "store (FacultyDashboardView_post S d u post)" d]
  by auto

lemma inv_Student_objects_create:
  "enrollment_inv d \<Longrightarrow> Student_objects_create d u = Inr d' \<Longrightarrow> enrollment_inv d'"
  by (auto simp: Student_objects_create_def inv_new_profile split: if_splits)

lemma inv_create_user:
  "enrollment_inv d \<Longrightarrow> create_user S d a b c r = Inr (u, d1) \<Longrightarrow> enrollment_inv d1"
  using inv_same_students [of d1 d] by (auto simp: create_user_def Let_def split: if_splits)

lemma register_store:
  "store (RegisterView_post S d post) = d \<or>
   (\<exists>a b c r u d1. create_user S d a b c r = Inr (u, d1) \<and>
      (store (RegisterView_post S d post) = d1 \<or>
       Student_objects_create d1 u = Inr (store (RegisterView_post S d post))))"
proof (cases "fields_present post")
  case False
  then show ?thesis by (simp add: register_missing register_error_def)
next
  case True
  from fields_presentD [OF True] obtain uname em pw rl where f:
    "post ''username'' = Some uname" "post ''email'' = Some em"
    "post ''password'' = Some pw" "post ''role'' = Some rl"
    "uname \<noteq> []" "em \<noteq> []" "pw \<noteq> []" "rl \<noteq> []" by blast
  show ?thesis
  proof (cases "create_user S d uname em pw
      (if lower rl = ''student'' then ''Student'' else ''Faculty'')")
    case (Inl e)
    with f show ?thesis by (simp add: RegisterView_post_def register_error_def)
  next
    case (Inr ud)
    obtain u d1 where ud: "ud = (u, d1)" by (cases ud)
    have "store (RegisterView_post S d post) = d \<or> store (RegisterView_post S d post) = d1 \<or>
         Student_objects_create d1 u = Inr (store (RegisterView_post S d post))"
      using f Inr ud by (auto simp: RegisterView_post_def register_error_def split: sum.splits)
    with Inr ud show ?thesis by blast
  qed
qed

lemma inv_register:
  "enrollment_inv d \<Longrightarrow> enrollment_inv (store (RegisterView_post S d post))"
proof -
  assume i: "enrollment_inv d"
  from register_store [of S d post] show ?thesis
  proof (elim disjE exE conjE)
    assume "store (RegisterView_post S d post) = d"
    with i show ?thesis by simp
  next
    fix a b c r u d1
    assume "create_user S d a b c r = Inr (u, d1)" "store (RegisterView_post S d post) = d1"
    with i show ?thesis by (simp add: inv_create_user)
  next
    fix a b c r u d1
    assume "create_user S d a b c r = Inr (u, d1)"
      "Student_objects_create d1 u = Inr (store (RegisterView_post S d post))"
    with i show ?thesis
      using inv_Student_objects_create [OF inv_create_user] by blast
  qed
qed

lemma inv_dispatch: "enrollment_inv d \<Longrightarrow> enrollment_inv (store (dispatch S d sess r))"
proof (cases r)
  case (Login_post post)
  then show "enrollment_inv d \<Longrightarrow> ?thesis"
    using inv_same_students [OF students_login, of S d post] by simp
next
  case (Register_post post)
  then show "enrollment_inv d \<Longrightarrow> ?thesis" by (simp add: inv_register)
next
  case Student_get
  then show "enrollment_inv d \<Longrightarrow> ?thesis"
    by (simp add: login_required_def inv_student_get split: option.splits)
next
  case (Student_post post)
  then show "enrollment_inv d \<Longrightarrow> ?thesis"
    by (simp add: login_required_def inv_student_post split: option.splits)
next
  case Faculty_get
  then show "enrollment_inv d \<Longrightarrow> ?thesis"
    by (simp add: login_required_def FacultyDashboardView_get_def split: option.splits)
next
  case (Faculty_post post)
  then show "enrollment_inv d \<Longrightarrow> ?thesis"
    by (simp add: login_required_def inv_faculty_post split: option.splits)
qed

lemma inv_serve: "enrollment_inv d \<Longrightarrow> enrollment_inv (serve S d rs)"
  by (induction rs arbitrary: d) (auto simp: inv_dispatch)

lemma courses_count_limit:
  "within_limit d \<Longrightarrow> courses_count d v \<le> 2"
proof (cases "student_profile d v")
  case None
  then show ?thesis by (simp add: courses_count_def enrolled_ids_def fcard_fempty)
next
  case (Some p)
  assume "within_limit d"
  moreover from Some have "p \<in> set (students d)"
    unfolding student_profile_def by (auto dest: find_SomeD)
  ultimately show ?thesis using Some
    by (auto simp: courses_count_def enrolled_ids_def within_limit_def list_all_iff)
qed


subsection \<open>The faculty dashboard: lookup, update, save\<close>

lemma get_owned_InrD:
  "Course_objects_get_owned S d cid u = Inr c \<Longrightarrow>
   c \<in> set (course_rows d) \<and> instructor c = user_id u \<and>
   (\<exists>t. cid = Some t \<and> pk_of_text S t = Inr (course_id c))"
  by (auto simp: Course_objects_get_owned_def split: option.splits sum.splits dest: find_SomeD)

lemma get_owned_miss:
  "pk_of_text S t = Inr n \<Longrightarrow>
   \<not> list_ex (\<lambda>c. course_id c = n \<and> instructor c = user_id u) (course_rows d) \<Longrightarrow>
   Course_objects_get_owned S d (Some t) u = Inl DoesNotExist"
proof -
  assume "\<not> list_ex (\<lambda>c. course_id c = n \<and> instructor c = user_id u) (course_rows d)"
  then have "find (\<lambda>c. course_id c = n \<and> instructor c = user_id u) (course_rows d) = None"
    by (simp add: list_ex_iff find_None_iff)
  moreover assume "pk_of_text S t = Inr n"
  ultimately show ?thesis by (simp add: Course_objects_get_owned_def)
qed

lemma get_owned_unread:
  "pk_of_text S t = Inl e \<Longrightarrow> Course_objects_get_owned S d (Some t) u = Inl e"
  by (simp add: Course_objects_get_owned_def)

lemma faculty_delete_eq:
  "role u = ''Faculty'' \<Longrightarrow> post ''action'' = Some ''delete'' \<Longrightarrow>
   FacultyDashboardView_post S d u post =
     (if truthy (post ''course_id'') then
        (case Course_objects_get_owned S d (post ''course_id'') u of
           Inr c \<Rightarrow> \<lparr>response = Redirect ''faculty-dashboard'',
                     flashes = [Success ''Course deleted successfully''],
                     logged_in = None, store = course_delete d c\<rparr>
         | Inl DoesNotExist \<Rightarrow> \<lparr>response = Redirect ''faculty-dashboard'',
                     flashes = [Failure ''Course not found''], logged_in = None, store = d\<rparr>
         | Inl e \<Rightarrow> \<lparr>response = Uncaught e, flashes = [], logged_in = None, store = d\<rparr>)
      else \<lparr>response = Redirect ''faculty-dashboard'', flashes = [],
             logged_in = None, store = d\<rparr>)"
  by (simp add: FacultyDashboardView_post_def)

lemma faculty_update_eq:
  "role u = ''Faculty'' \<Longrightarrow> post ''action'' = Some ''update'' \<Longrightarrow>
   FacultyDashboardView_post S d u post =
     (if truthy (post ''course_id'') then
        (case Course_objects_get_owned S d (post ''course_id'') u of
           Inr c \<Rightarrow>
             (case update_course S d c post of
                Inr d1 \<Rightarrow> \<lparr>response = Redirect ''faculty-dashboard'',
                           flashes = [Success ''Course updated successfully''],
                           logged_in = None, store = d1\<rparr>
              | Inl e \<Rightarrow> \<lparr>response = Redirect ''faculty-dashboard'',
                           flashes = (if e = DoesNotExist then [Failure ''Course not found'']
                                      else [Failure_of e]),
                           logged_in = None, store = d\<rparr>)
         | Inl e \<Rightarrow> \<lparr>response = Redirect ''faculty-dashboard'',
                     flashes = (if e = DoesNotExist then [Failure ''Course not found'']
                                else [Failure_of e]),
                     logged_in = None, store = d\<rparr>)
      else \<lparr>response = Redirect ''faculty-dashboard'', flashes = [],
             logged_in = None, store = d\<rparr>)"
  by (simp add: FacultyDashboardView_post_def split: sum.splits exn.splits)

lemma update_course_InrD:
  "update_course S d c post = Inr d1 \<Longrightarrow>
   \<exists>c'. d1 = course_save d c' \<and> course_id c' = course_id c \<and> instructor c' = instructor c \<and>
     course_name c' = (case post ''name'' of None \<Rightarrow> course_name c | Some t \<Rightarrow> t) \<and>
     course_code c' = (case post ''code'' of None \<Rightarrow> course_code c | Some t \<Rightarrow> t) \<and>
     (case post ''credits'' of None \<Rightarrow> credits c' = credits c
      | Some t \<Rightarrow> credits_of_text S t = Inr (credits c'))"
  by (auto simp: update_course_def Let_def split: option.splits sum.splits)

lemma find_replaced:
  "c \<in> set rows \<Longrightarrow> course_id c' = course_id c \<Longrightarrow>
   find (\<lambda>r. course_id r = course_id c)
     (map (\<lambda>r. if course_id r = course_id c' then c' else r) rows) = Some c'"
  by (induction rows) auto

lemma filter_replaced:
  "course_id c' = k \<Longrightarrow>
   filter (\<lambda>r. course_id r \<noteq> k) (map (\<lambda>r. if course_id r = course_id c' then c' else r) rows)
     = filter (\<lambda>r. course_id r \<noteq> k) rows"
  by (induction rows) auto

lemma save_keeps_ids:
  "map course_id (course_rows (course_save d c')) = map course_id (course_rows d)"
  by (simp add: course_save_def o_def if_distrib cong: if_cong)

lemma save_keeps_instructors:
  assumes "course_ids_unique d" "c \<in> set (course_rows d)" "course_id c' = course_id c"
    "instructor c' = instructor c"
  shows "map instructor (course_rows (course_save d c')) = map instructor (course_rows d)"
proof -
  from assms(1) have inj: "inj_on course_id (set (course_rows d))"
    by (simp add: course_ids_unique_def distinct_map)
  have "instructor (if course_id r = course_id c' then c' else r) = instructor r"
    if "r \<in> set (course_rows d)" for r
    using inj_onD [OF inj _ that assms(2)] assms(3,4) by auto
  then show ?thesis by (simp add: course_save_def)
qed

lemma update_course_InlD:
  "update_course S d c post = Inl e \<Longrightarrow>
   \<exists>t. post ''credits'' = Some t \<and> credits_of_text S t = Inl e"
  by (auto simp: update_course_def Let_def split: option.splits sum.splits)

lemma campus_owned_1: "Course_objects_get_owned decimal_schema campus (Some ''1'') bob = Inr logic"
  by (simp add: Course_objects_get_owned_def decimal_schema_def decimal_1 campus_def logic_def
      bob_def)

lemma campus_unique: "course_ids_unique campus"
  by (simp add: course_ids_unique_def campus_def logic_def algebra_def optics_def)

lemma campus_no_9: "\<not> list_ex (\<lambda>c. course_id c = 9 \<and> instructor c = user_id bob) (course_rows campus)"
  by (simp add: campus_def logic_def algebra_def optics_def)

lemma campus_carol_1:
  "\<not> list_ex (\<lambda>c. course_id c = 1 \<and> instructor c = user_id carol) (course_rows campus)"
  by (simp add: campus_def logic_def algebra_def optics_def carol_def)

lemma campus_bob_deletes:
  "store (FacultyDashboardView_post decimal_schema campus bob
     (map_of [(''action'', ''delete''), (''course_id'', ''1'')])) \<noteq> campus"
proof -
  have r: "role bob = ''Faculty''" by (simp add: bob_def)
  have "course_rows (store (FacultyDashboardView_post decimal_schema campus bob
     (map_of [(''action'', ''delete''), (''course_id'', ''1'')]))) = [algebra, optics]"
    using r campus_owned_1
    by (simp add: FacultyDashboardView_post_def truthy_def course_delete_def campus_def
        logic_def algebra_def optics_def)
  moreover have "course_rows campus = [logic, algebra, optics]" by (simp add: campus_def)
  ultimately show ?thesis by auto
qed

subsection \<open>Every request keeps the instructors\<close>

lemma kept_same:
  "course_rows d' = course_rows d \<Longrightarrow> course_seq d' = course_seq d \<Longrightarrow> instructors_kept d d'"
  by (auto simp: instructors_kept_def list_all_iff list_ex_iff)

lemma kept_trans:
  assumes "instructors_kept d d1" "instructors_kept d1 d2"
  shows "instructors_kept d d2"
proof -
  have "course_seq d < course_id c2 \<or>
      (\<exists>c\<in>set (course_rows d). course_id c = course_id c2 \<and> instructor c = instructor c2)"
    if "c2 \<in> set (course_rows d2)" for c2
  proof -
    from assms(2) that consider "course_seq d1 < course_id c2"
      | c1 where "c1 \<in> set (course_rows d1)" "course_id c1 = course_id c2"
          "instructor c1 = instructor c2"
      by (auto simp: instructors_kept_def list_all_iff list_ex_iff)
    then show ?thesis
    proof cases
      case 1
      with assms(1) show ?thesis by (simp add: instructors_kept_def)
    next
      case 2
      from assms(1) 2(1) have "course_seq d < course_id c1 \<or>
        (\<exists>c\<in>set (course_rows d). course_id c = course_id c1 \<and> instructor c = instructor c1)"
        by (auto simp: instructors_kept_def list_all_iff list_ex_iff)
      with 2(2,3) show ?thesis by simp
    qed
  qed
  moreover from assms have "course_seq d \<le> course_seq d2" by (simp add: instructors_kept_def)
  ultimately show ?thesis by (simp add: instructors_kept_def list_all_iff list_ex_iff)
qed

lemma kept_login: "instructors_kept d (store (LoginView_post S d post))"
  by (rule kept_same) (simp_all add: LoginView_post_def save_user_def Let_def split: option.splits)

lemma kept_create_user:
  "create_user S d a b c r = Inr (u, d1) \<Longrightarrow>
   course_rows d1 = course_rows d \<and> course_seq d1 = course_seq d"
  by (auto simp: create_user_def Let_def split: if_splits)

lemma kept_profile:
  "Student_objects_create d1 u = Inr d2 \<Longrightarrow>
   course_rows d2 = course_rows d1 \<and> course_seq d2 = course_seq d1"
  by (auto simp: Student_objects_create_def split: if_splits)

lemma kept_register: "instructors_kept d (store (RegisterView_post S d post))"
proof -
  from register_store [of S d post]
  have "course_rows (store (RegisterView_post S d post)) = course_rows d \<and>
        course_seq (store (RegisterView_post S d post)) = course_seq d"
  proof (elim disjE exE conjE)
    assume "store (RegisterView_post S d post) = d"
    then show ?thesis by simp
  next
    fix a b c r u d1
    assume "create_user S d a b c r = Inr (u, d1)" "store (RegisterView_post S d post) = d1"
    then show ?thesis using kept_create_user by simp
  next
    fix a b c r u d1
    assume "create_user S d a b c r = Inr (u, d1)"
      "Student_objects_create d1 u = Inr (store (RegisterView_post S d post))"
    then show ?thesis using kept_create_user [of S d a b c r u d1]
        kept_profile [of d1 u "store (RegisterView_post S d post)"] by simp
  qed
  then show ?thesis by (simp add: kept_same)
qed

lemma kept_student_get: "instructors_kept d (store (StudentDashboardView_get d u))"
  by (rule kept_same)
    (simp_all add: StudentDashboardView_get_def create_missing_profile_eq Let_def)

lemma kept_student_post: "instructors_kept d (store (StudentDashboardView_post S d u post))"
proof (cases "role u = ''Student''")
  case False
  then show ?thesis by (simp add: StudentDashboardView_post_def kept_same)
next
  case True
  define d1 where "d1 = (if student_profile d u = None
          then d\<lparr>students := students d @ [\<lparr>student_user = user_id u, courses = {||}\<rparr>]\<rparr>
          else d)"
  have out: "store (StudentDashboardView_post S d u post) = snd (enroll_or_drop S d1 u post)"
    unfolding d1_def student_post_eq [OF True] by simp
  have d1: "course_rows d1 = course_rows d" "course_seq d1 = course_seq d"
    by (simp_all add: d1_def)
  from enroll_or_drop_store [of S d1 u post]
  have "course_rows (snd (enroll_or_drop S d1 u post)) = course_rows d1 \<and>
        course_seq (snd (enroll_or_drop S d1 u post)) = course_seq d1"
    by (elim disjE exE conjE) (simp_all add: courses_remove_def courses_add_def)
  then show ?thesis unfolding out using d1 by (simp add: kept_same)
qed

lemma faculty_post_store:
  "store (FacultyDashboardView_post S d u post) = d \<or>
   Course_objects_create S d (post ''name'') (post ''code'') (post ''credits'') u
     = Inr (store (FacultyDashboardView_post S d u post)) \<or>
   (\<exists>c. c \<in> set (course_rows d) \<and>
      store (FacultyDashboardView_post S d u post) = course_delete d c) \<or>
   (\<exists>c. Course_objects_get_owned S d (post ''course_id'') u = Inr c \<and>
      update_course S d c post = Inr (store (FacultyDashboardView_post S d u post)))"
proof (cases "role u = ''Faculty''")
  case False
  then show ?thesis by (simp add: FacultyDashboardView_post_def)
next
  case fac: True
  consider (create) "post ''action'' = Some ''create''"
    | (delete) "post ''action'' = Some ''delete''"
    | (update) "post ''action'' = Some ''update''"
    | (other) "post ''action'' \<noteq> Some ''create''" "post ''action'' \<noteq> Some ''delete''"
        "post ''action'' \<noteq> Some ''update''"
    by blast
  then show ?thesis
  proof cases
    case create
    with fac show ?thesis
      by (cases "Course_objects_create S d (post ''name'') (post ''code'') (post ''credits'') u")
        (simp_all add: FacultyDashboardView_post_def)
  next
    case delete
    show ?thesis
    proof (cases "Course_objects_get_owned S d (post ''course_id'') u")
      case (Inl e)
      then show ?thesis unfolding faculty_delete_eq [where S = S and d = d and u = u and post = post, OF fac delete] by (cases e) simp_all
    next
      case (Inr c)
      with get_owned_InrD [OF Inr] show ?thesis
        unfolding faculty_delete_eq [where S = S and d = d and u = u and post = post, OF fac delete] by auto
    qed
  next
    case update
    show ?thesis
    proof (cases "Course_objects_get_owned S d (post ''course_id'') u")
      case (Inl e)
      then show ?thesis unfolding faculty_update_eq [where S = S and d = d and u = u and post = post, OF fac update] by simp
    next
      case (Inr c)
      then show ?thesis unfolding faculty_update_eq [where S = S and d = d and u = u and post = post, OF fac update]
        by (cases "update_course S d c post") simp_all
    qed
  next
    case other
    with fac show ?thesis by (simp add: FacultyDashboardView_post_def)
  qed
qed

lemma kept_create:
  "Course_objects_create S d a b cr u = Inr d1 \<Longrightarrow> instructors_kept d d1"
  by (auto simp: Course_objects_create_def instructors_kept_def list_all_iff list_ex_iff
      split: option.splits sum.splits)

lemma kept_delete: "instructors_kept d (course_delete d c)"
  by (auto simp: course_delete_def instructors_kept_def list_all_iff list_ex_iff)

lemma kept_save:
  "c \<in> set (course_rows d) \<Longrightarrow> course_id c' = course_id c \<Longrightarrow> instructor c' = instructor c \<Longrightarrow>
   instructors_kept d (course_save d c')"
  by (auto simp: course_save_def instructors_kept_def list_all_iff list_ex_iff)

lemma kept_faculty_post: "instructors_kept d (store (FacultyDashboardView_post S d u post))"
  using faculty_post_store [of S d u post]
proof (elim disjE exE conjE)
  assume "store (FacultyDashboardView_post S d u post) = d"
  then show ?thesis by (simp add: kept_same)
next
  assume "Course_objects_create S d (post ''name'') (post ''code'') (post ''credits'') u
     = Inr (store (FacultyDashboardView_post S d u post))"
  then show ?thesis by (rule kept_create)
next
  fix c
  assume "store (FacultyDashboardView_post S d u post) = course_delete d c"
  then show ?thesis by (simp add: kept_delete)
next
  fix c
  assume g: "Course_objects_get_owned S d (post ''course_id'') u = Inr c"
    and s: "update_course S d c post = Inr (store (FacultyDashboardView_post S d u post))"
  from get_owned_InrD [OF g] have m: "c \<in> set (course_rows d)" by simp
  from update_course_InrD [OF s] obtain c' where
    "store (FacultyDashboardView_post S d u post) = course_save d c'"
    "course_id c' = course_id c" "instructor c' = instructor c" by blast
  with m show ?thesis by (simp add: kept_save)
qed

lemma kept_dispatch: "instructors_kept d (store (dispatch S d sess r))"
proof (cases r)
  case (Login_post post)
  then show ?thesis by (simp add: kept_login)
next
  case (Register_post post)
  then show ?thesis by (simp add: kept_register)
next
  case Student_get
  then show ?thesis
    by (simp add: login_required_def kept_student_get kept_same split: option.splits)
next
  case (Student_post post)
  then show ?thesis
    by (simp add: login_required_def kept_student_post kept_same split: option.splits)
next
  case Faculty_get
  then show ?thesis
    by (simp add: login_required_def FacultyDashboardView_get_def kept_same split: option.splits)
next
  case (Faculty_post post)
  then show ?thesis
    by (simp add: login_required_def kept_faculty_post kept_same split: option.splits)
qed

lemma kept_serve: "instructors_kept d (serve S d rs)"
proof (induction rs arbitrary: d)
  case Nil
  show ?case by (simp add: kept_same)
next
  case (Cons a rs)
  obtain sess r where a: "a = (sess, r)" by (cases a)
  show ?case unfolding a serve.simps
    by (rule kept_trans [OF kept_dispatch Cons.IH])
qed

lemma kept_instructor:
  assumes "instructors_kept d d'" "course_ids_unique d" "course_keys_issued d"
    "c \<in> set (course_rows d)" "c' \<in> set (course_rows d')" "course_id c' = course_id c"
  shows "instructor c' = instructor c"
proof -
  from assms(3,4) have "course_id c \<le> course_seq d"
    by (simp add: course_keys_issued_def list_all_iff)
  with assms(1,5,6) obtain c0 where c0: "c0 \<in> set (course_rows d)" "course_id c0 = course_id c'"
    "instructor c0 = instructor c'"
    by (auto simp: instructors_kept_def list_all_iff list_ex_iff)
  from assms(2) have "inj_on course_id (set (course_rows d))"
    by (simp add: course_ids_unique_def distinct_map)
  from inj_onD [OF this _ c0(1) assms(4)] c0(2) assms(6) have "c0 = c" by simp
  with c0(3) show ?thesis by simp
qed

lemma campus_issued: "course_keys_issued campus"
  by (simp add: course_keys_issued_def campus_def logic_def algebra_def optics_def)

lemma campus_user_3: "request_user campus (Some 3) = Some bob"
  by (simp add: request_user_def campus_def alice_def faculty_jane_def bob_def)

lemma campus_renamed:
  "serve decimal_schema campus
     [(Some 3, Faculty_post (map_of [(''action'', ''update''), (''course_id'', ''1''),
                                     (''name'', ''Logic II'')]))]
   = campus\<lparr>course_rows :=
       [\<lparr>course_id = 1, course_name = ''Logic II'', course_code = ''L101'', credits = 4,
         instructor = 3\<rparr>, algebra, optics]\<rparr>"
proof -
  have r: "role bob = ''Faculty''" by (simp add: bob_def)
  have "FacultyDashboardView_post decimal_schema campus bob
      (map_of [(''action'', ''update''), (''course_id'', ''1''), (''name'', ''Logic II'')])
    = \<lparr>response = Redirect ''faculty-dashboard'',
       flashes = [Success ''Course updated successfully''], logged_in = None,
       store = course_save campus (logic\<lparr>course_name := ''Logic II''\<rparr>)\<rparr>"
    using r campus_owned_1
    by (simp add: FacultyDashboardView_post_def truthy_def update_course_def)
  moreover have "course_save campus (logic\<lparr>course_name := ''Logic II''\<rparr>) =
      campus\<lparr>course_rows :=
       [\<lparr>course_id = 1, course_name = ''Logic II'', course_code = ''L101'', credits = 4,
         instructor = 3\<rparr>, algebra, optics]\<rparr>"
    by (simp add: course_save_def campus_def logic_def algebra_def optics_def)
  ultimately show ?thesis by (simp add: login_required_def campus_user_3)
qed

subsection \<open>Login of a user named faculty...\<close>

lemma authenticate_SomeD:
  "authenticate S d uname pw = Some u \<Longrightarrow> u \<in> set (users d) \<and> username u = uname"
  by (auto simp: authenticate_def split: option.splits if_splits dest: find_SomeD)

lemma find_saved:
  "u0 \<in> set us \<Longrightarrow> user_id u' = user_id u0 \<Longrightarrow>
   find (\<lambda>r. user_id r = user_id u0) (map (\<lambda>r. if user_id r = user_id u0 then u' else r) us)
     = Some u'"
  by (induction us) auto

text \<open>
  Claim C4. When the username starts with \<^verbatim>\<open>faculty\<close>, the credentials authenticate a
  user (the password being one the view lets through, that is not empty) and the stored
  role of that user is not \<^verbatim>\<open>Faculty\<close>, the login saves the user with role
  \<^verbatim>\<open>Faculty\<close>: the user handed to \<^verbatim>\<open>login\<close> is the saved one, the row of the
  session's user in the new store carries the new role, and the response redirects to the
  faculty dashboard. The witness is the login of \<^verbatim>\<open>faculty_jane\<close>, stored as a student.
\<close>

theorem login_repairs_faculty_role:
  assumes "post ''username'' = Some uname" "post ''password'' = Some pw" "pw \<noteq> []"
    "prefix ''faculty'' uname"
    "authenticate S d uname pw = Some u0" "role u0 \<noteq> ''Faculty''"
  shows
    "LoginView_post S d post =
       \<lparr>response = Redirect ''faculty-dashboard'', flashes = [],
        logged_in = Some (u0\<lparr>role := ''Faculty''\<rparr>),
        store = save_user d (u0\<lparr>role := ''Faculty''\<rparr>)\<rparr> \<and>
     request_user (store (LoginView_post S d post)) (Some (user_id u0))
       = Some (u0\<lparr>role := ''Faculty''\<rparr>) \<and>
     students (store (LoginView_post S d post)) = students d \<and>
     course_rows (store (LoginView_post S d post)) = course_rows d"
proof -
  from assms(4) have ne: "uname \<noteq> []" by auto
  have out: "LoginView_post S d post =
       \<lparr>response = Redirect ''faculty-dashboard'', flashes = [],
        logged_in = Some (u0\<lparr>role := ''Faculty''\<rparr>),
        store = save_user d (u0\<lparr>role := ''Faculty''\<rparr>)\<rparr>"
    using assms ne by (simp add: LoginView_post_def Let_def)
  from authenticate_SomeD [OF assms(5)] have "u0 \<in> set (users d)" by simp
  then have "request_user (save_user d (u0\<lparr>role := ''Faculty''\<rparr>)) (Some (user_id u0))
       = Some (u0\<lparr>role := ''Faculty''\<rparr>)"
    using find_saved [of u0 "users d" "u0\<lparr>role := ''Faculty''\<rparr>"]
    by (simp add: request_user_def save_user_def)
  then show ?thesis unfolding out by (simp add: save_user_def)
qed

lemma campus_jane: "authenticate decimal_schema campus ''faculty_jane'' ''pw'' = Some faculty_jane"
  by (simp add: authenticate_def decimal_schema_def campus_def alice_def faculty_jane_def)

theorem login_repairs_faculty_role_witness:
  "authenticate decimal_schema campus ''faculty_jane'' ''pw'' = Some faculty_jane \<and>
   role faculty_jane = ''Student'' \<and>
   LoginView_post decimal_schema campus
      (map_of [(''username'', ''faculty_jane''), (''password'', ''pw'')]) =
     \<lparr>response = Redirect ''faculty-dashboard'', flashes = [],
      logged_in = Some (faculty_jane\<lparr>role := ''Faculty''\<rparr>),
      store = campus\<lparr>users := [alice, faculty_jane\<lparr>role := ''Faculty''\<rparr>, bob, carol, dave]\<rparr>\<rparr>"
proof -
  let ?p = "map_of [(''username'', ''faculty_jane''), (''password'', ''pw'')]"
  have f: "?p ''username'' = Some ''faculty_jane''" "?p ''password'' = Some ''pw''" by simp_all
  have pf: "prefix ''faculty'' ''faculty_jane''" "''pw'' \<noteq> []" by simp_all
  have r: "role faculty_jane = ''Student''" "role faculty_jane \<noteq> ''Faculty''"
    by (simp_all add: faculty_jane_def)
  have sv: "save_user campus (faculty_jane\<lparr>role := ''Faculty''\<rparr>) =
      campus\<lparr>users := [alice, faculty_jane\<lparr>role := ''Faculty''\<rparr>, bob, carol, dave]\<rparr>"
    by (simp add: save_user_def campus_def alice_def faculty_jane_def bob_def carol_def dave_def)
  note t = login_repairs_faculty_role [where post = "?p" and S = decimal_schema and d = campus,
      OF f pf(2) pf(1) campus_jane r(2)]
  from t campus_jane r(1) show ?thesis unfolding sv by simp
qed


subsection \<open>Registration: what is created\<close>

lemma absent_profile:
  assumes "profiles_have_users d" "user_keys_issued d" "user_id u = Suc (user_seq d)"
    "students d' = students d"
  shows "student_profile d' u = None"
proof -
  have "user_id u \<notin> set (map user_id (users d))"
    using assms(2,3) by (auto simp: user_keys_issued_def list_all_iff)
  with assms(1) have "user_id u \<notin> set (map student_user (students d))"
    by (auto simp: profiles_have_users_def)
  then show ?thesis unfolding student_profile_def assms(4) by (force simp: find_None_iff)
qed

text \<open>
  Claim C3, as the code has it. Take a registration with all four fields present and
  not empty, a username that no user has and an email that no user has, on a store whose
  profiles belong to users and whose user keys were issued by the table. The view's two
  tests compare the texts as submitted; \<^verbatim>\<open>create_user\<close> stores the username and the
  email normalised, and the table refuses a username that is in use (and an email, where
  the table keeps emails unique). So:

  \<^item> if the normalised username (or, under that constraint, the normalised email) is in
    use, the registration is refused: the page is rendered again with the exception as
    its error message, and nothing is created;

  \<^item> otherwise exactly one user is added, under the next key of the table, with the
    normalised username and email, the hashed password, and the role \<^verbatim>\<open>Student\<close> when the
    submitted role is \<^verbatim>\<open>student\<close> in any case of letters and \<^verbatim>\<open>Faculty\<close> otherwise; when
    the role is \<^verbatim>\<open>Student\<close> exactly one profile with no course is added for that user, and
    none otherwise; the courses are untouched; the response redirects to the login page
    with the success message and nobody is logged in.
\<close>

theorem register_creates_user_and_profile:
  assumes "post ''username'' = Some uname" "post ''email'' = Some em"
    "post ''password'' = Some pw" "post ''role'' = Some rl"
    "fields_present post" "\<not> username_exists d post" "\<not> email_exists d post"
    "profiles_have_users d" "user_keys_issued d"
  shows
    "(normalize_username S uname \<in> set (map username (users d)) \<or>
      unique_email S \<and> normalize_email S em \<in> set (map email (users d)) \<longrightarrow>
        RegisterView_post S d post =
          \<lparr>response = Render ''register.html'' [(''error_message'', Text_of IntegrityError)],
           flashes = [], logged_in = None, store = d\<rparr>) \<and>
     (\<not> (normalize_username S uname \<in> set (map username (users d)) \<or>
         unique_email S \<and> normalize_email S em \<in> set (map email (users d))) \<longrightarrow>
        (\<exists>u. response (RegisterView_post S d post) = Redirect ''login'' \<and>
           logged_in (RegisterView_post S d post) = None \<and>
           flashes (RegisterView_post S d post)
             = [Success ''Registration successful! Please login with your credentials.''] \<and>
           users (store (RegisterView_post S d post)) = users d @ [u] \<and>
           user_id u = Suc (user_seq d) \<and>
           user_id u \<notin> set (map user_id (users d)) \<and>
           username u = normalize_username S uname \<and> email u = normalize_email S em \<and>
           password u = make_password S pw \<and>
           role u = (if lower rl = ''student'' then ''Student'' else ''Faculty'') \<and>
           students (store (RegisterView_post S d post))
             = (if lower rl = ''student''
                then students d @ [\<lparr>student_user = user_id u, courses = {||}\<rparr>]
                else students d) \<and>
           filter (\<lambda>p. student_user p = user_id u)
               (students (store (RegisterView_post S d post)))
             = (if lower rl = ''student''
                then [\<lparr>student_user = user_id u, courses = {||}\<rparr>] else []) \<and>
           course_rows (store (RegisterView_post S d post)) = course_rows d))"
proof -
  define taken where "taken =
    (list_ex (\<lambda>r. username r = normalize_username S uname) (users d) \<or>
     (unique_email S \<and> list_ex (\<lambda>r. email r = normalize_email S em) (users d)))"
  have taken: "taken = (normalize_username S uname \<in> set (map username (users d)) \<or>
      unique_email S \<and> normalize_email S em \<in> set (map email (users d)))"
    unfolding taken_def list_ex_iff by (simp add: image_iff) metis
  define rl' where "rl' = (if lower rl = ''student'' then ''Student'' else ''Faculty'')"
  define u where "u = \<lparr>user_id = Suc (user_seq d), username = normalize_username S uname,
             email = normalize_email S em, password = make_password S pw, role = rl'\<rparr>"
  define d1 where "d1 = d\<lparr>users := users d @ [u], user_seq := Suc (user_seq d)\<rparr>"
  from assms(1-5) have ne: "uname \<noteq> []" "em \<noteq> []" "pw \<noteq> []" "rl \<noteq> []"
    by (simp_all add: fields_present_def truthy_def)
  from assms(1,6) have nu: "\<not> list_ex (\<lambda>u. username u = uname) (users d)"
    by (simp add: username_exists_def)
  from assms(2,7) have nm: "\<not> list_ex (\<lambda>u. email u = em) (users d)"
    by (simp add: email_exists_def)
  have cu: "create_user S d uname em pw rl' = (if taken then Inl IntegrityError else Inr (u, d1))"
    by (simp add: create_user_def taken_def u_def d1_def Let_def)
  have body: "RegisterView_post S d post =
      (case create_user S d uname em pw rl' of
         Inl e \<Rightarrow> register_error d (Text_of e)
       | Inr (u, d1) \<Rightarrow>
           (case (if lower rl = ''student'' then Student_objects_create d1 u else Inr d1) of
              Inl e \<Rightarrow> register_error d1 (Text_of e)
            | Inr d2 \<Rightarrow>
                \<lparr>response = Redirect ''login'',
                 flashes = [Success ''Registration successful! Please login with your credentials.''],
                 logged_in = None, store = d2\<rparr>))"
    using assms(1-4) ne nu nm by (simp add: RegisterView_post_def rl'_def)
  have np: "student_profile d1 u = None"
    by (rule absent_profile [OF assms(8) assms(9)]) (simp_all add: u_def d1_def)
  have sc: "Student_objects_create d1 u =
      Inr (d1\<lparr>students := students d @ [\<lparr>student_user = user_id u, courses = {||}\<rparr>]\<rparr>)"
    using np by (simp add: Student_objects_create_def d1_def)
  have fresh: "user_id u \<notin> set (map user_id (users d))"
    using assms(9) by (auto simp: user_keys_issued_def list_all_iff u_def)
  have none: "filter (\<lambda>p. student_user p = user_id u) (students d) = []"
    using np by (simp add: student_profile_def find_None_iff filter_empty_conv d1_def)
  have fail: "RegisterView_post S d post =
          \<lparr>response = Render ''register.html'' [(''error_message'', Text_of IntegrityError)],
           flashes = [], logged_in = None, store = d\<rparr>" if taken
    unfolding body cu using that by (simp add: register_error_def)
  have ok: "RegisterView_post S d post =
      \<lparr>response = Redirect ''login'',
       flashes = [Success ''Registration successful! Please login with your credentials.''],
       logged_in = None,
       store = (if lower rl = ''student''
                then d1\<lparr>students := students d @ [\<lparr>student_user = user_id u, courses = {||}\<rparr>]\<rparr>
                else d1)\<rparr>" if "\<not> taken"
    unfolding body cu using that sc by simp
  have fields: "user_id u = Suc (user_seq d)" "username u = normalize_username S uname"
    "email u = normalize_email S em" "password u = make_password S pw"
    "role u = (if lower rl = ''student'' then ''Student'' else ''Faculty'')"
    by (simp_all add: u_def rl'_def)
  have d1: "users d1 = users d @ [u]" "students d1 = students d" "course_rows d1 = course_rows d"
    by (simp_all add: d1_def)
  show ?thesis
  proof (intro conjI impI)
    assume "normalize_username S uname \<in> set (map username (users d)) \<or>
      unique_email S \<and> normalize_email S em \<in> set (map email (users d))"
    then have taken unfolding taken .
    then show "RegisterView_post S d post =
          \<lparr>response = Render ''register.html'' [(''error_message'', Text_of IntegrityError)],
           flashes = [], logged_in = None, store = d\<rparr>" by (rule fail)
  next
    assume "\<not> (normalize_username S uname \<in> set (map username (users d)) \<or>
         unique_email S \<and> normalize_email S em \<in> set (map email (users d)))"
    then have "\<not> taken" unfolding taken .
    show "\<exists>u. response (RegisterView_post S d post) = Redirect ''login'' \<and>
           logged_in (RegisterView_post S d post) = None \<and>
           flashes (RegisterView_post S d post)
             = [Success ''Registration successful! Please login with your credentials.''] \<and>
           users (store (RegisterView_post S d post)) = users d @ [u] \<and>
           user_id u = Suc (user_seq d) \<and>
           user_id u \<notin> set (map user_id (users d)) \<and>
           username u = normalize_username S uname \<and> email u = normalize_email S em \<and>
           password u = make_password S pw \<and>
           role u = (if lower rl = ''student'' then ''Student'' else ''Faculty'') \<and>
           students (store (RegisterView_post S d post))
             = (if lower rl = ''student''
                then students d @ [\<lparr>student_user = user_id u, courses = {||}\<rparr>]
                else students d) \<and>
           filter (\<lambda>p. student_user p = user_id u)
               (students (store (RegisterView_post S d post)))
             = (if lower rl = ''student''
                then [\<lparr>student_user = user_id u, courses = {||}\<rparr>] else []) \<and>
           course_rows (store (RegisterView_post S d post)) = course_rows d"
      unfolding ok [OF \<open>\<not> taken\<close>]
      using fresh none fields d1 by (intro exI [of _ u]) simp
  qed
qed

lemma lower_STUDENT: "lower ''STUDENT'' = ''student''"
  by code_simp

lemma lower_Teacher: "lower ''Teacher'' \<noteq> ''student''"
  by code_simp

lemma plain_erin: "plain_letters ''erin'' = ''erin''"
  by code_simp

lemma plain_wide_alice:
  "plain_letters (CHR 0xEF # CHR 0xBD # CHR 0x81 # ''lice'') = ''alice''"
  by code_simp

lemma campus_profiles: "profiles_have_users campus \<and> user_keys_issued campus"
  by (simp add: profiles_have_users_def user_keys_issued_def campus_def alice_def
      faculty_jane_def bob_def carol_def dave_def)

lemma campus_usernames:
  "map username (users campus) = [''alice'', ''faculty_jane'', ''bob'', ''carol'', ''dave'']"
  by (simp add: campus_def alice_def faculty_jane_def bob_def carol_def dave_def)

lemma plain_wide_bob:
  "plain_letters (CHR 0xEF # CHR 0xBD # CHR 0x82 # ''ob'') = ''bob''"
  by code_simp

theorem register_creates_user_and_profile_witness:
  "users (store (RegisterView_post decimal_schema campus
       (map_of [(''username'', ''erin''), (''email'', ''erin@x.com''),
                (''password'', ''pw''), (''role'', ''STUDENT'')])))
     = users campus @ [\<lparr>user_id = 6, username = ''erin'', email = ''erin@x.com'',
                        password = ''sha$wp'', role = ''Student''\<rparr>] \<and>
   students (store (RegisterView_post decimal_schema campus
       (map_of [(''username'', ''erin''), (''email'', ''erin@x.com''),
                (''password'', ''pw''), (''role'', ''STUDENT'')])))
     = students campus @ [\<lparr>student_user = 6, courses = {||}\<rparr>] \<and>
   response (RegisterView_post decimal_schema campus
       (map_of [(''username'', ''erin''), (''email'', ''erin@x.com''),
                (''password'', ''pw''), (''role'', ''STUDENT'')])) = Redirect ''login'' \<and>
   logged_in (RegisterView_post decimal_schema campus
       (map_of [(''username'', ''erin''), (''email'', ''erin@x.com''),
                (''password'', ''pw''), (''role'', ''STUDENT'')])) = None \<and>
   users (store (RegisterView_post decimal_schema campus
       (map_of [(''username'', ''erin''), (''email'', ''erin@x.com''),
                (''password'', ''pw''), (''role'', ''Teacher'')])))
     = users campus @ [\<lparr>user_id = 6, username = ''erin'', email = ''erin@x.com'',
                        password = ''sha$wp'', role = ''Faculty''\<rparr>] \<and>
   students (store (RegisterView_post decimal_schema campus
       (map_of [(''username'', ''erin''), (''email'', ''erin@x.com''),
                (''password'', ''pw''), (''role'', ''Teacher'')])))
     = students campus \<and>
   RegisterView_post decimal_schema campus
       (map_of [(''username'', CHR 0xEF # CHR 0xBD # CHR 0x82 # ''ob''),
                (''email'', ''wide@x.com''), (''password'', ''pw''), (''role'', ''student'')])
     = \<lparr>response = Render ''register.html'' [(''error_message'', Text_of IntegrityError)],
        flashes = [], logged_in = None, store = campus\<rparr>"
proof -
  let ?p1 = "map_of [(''username'', ''erin''), (''email'', ''erin@x.com''),
                (''password'', ''pw''), (''role'', ''STUDENT'')]"
  let ?p2 = "map_of [(''username'', ''erin''), (''email'', ''erin@x.com''),
                (''password'', ''pw''), (''role'', ''Teacher'')]"
  let ?p3 = "map_of [(''username'', CHR 0xEF # CHR 0xBD # CHR 0x82 # ''ob''),
                (''email'', ''wide@x.com''), (''password'', ''pw''), (''role'', ''student'')]"
  note ps = campus_profiles [THEN conjunct1] campus_profiles [THEN conjunct2]
  have seq: "user_seq campus = 5" by (simp add: campus_def)
  have f: "fields_present ?p1" "fields_present ?p2" "fields_present ?p3"
    by (simp_all add: fields_present_def truthy_def)
  have nu: "\<not> username_exists campus ?p1" "\<not> username_exists campus ?p2"
      "\<not> username_exists campus ?p3"
    and ne: "\<not> email_exists campus ?p1" "\<not> email_exists campus ?p2"
      "\<not> email_exists campus ?p3"
    by (simp_all add: username_exists_def email_exists_def campus_def alice_def
        faculty_jane_def bob_def carol_def dave_def)
  have free: "\<not> (normalize_username decimal_schema ''erin'' \<in> set (map username (users campus)) \<or>
      unique_email decimal_schema \<and>
      normalize_email decimal_schema ''erin@x.com'' \<in> set (map email (users campus)))"
    unfolding campus_usernames
    by (simp add: decimal_schema_def plain_erin del: plain_letters.simps)
  have taken: "normalize_username decimal_schema (CHR 0xEF # CHR 0xBD # CHR 0x82 # ''ob'')
        \<in> set (map username (users campus)) \<or>
      unique_email decimal_schema \<and>
      normalize_email decimal_schema ''wide@x.com'' \<in> set (map email (users campus))"
    unfolding campus_usernames
    by (simp add: decimal_schema_def plain_wide_bob del: plain_letters.simps)
  have sel: "normalize_username decimal_schema ''erin'' = ''erin''"
    "normalize_email decimal_schema ''erin@x.com'' = ''erin@x.com''"
    "make_password decimal_schema ''pw'' = ''sha$wp''"
    by (simp_all add: decimal_schema_def plain_erin del: plain_letters.simps)
  have t1: "\<exists>u. response (RegisterView_post decimal_schema campus ?p1) = Redirect ''login'' \<and>
      logged_in (RegisterView_post decimal_schema campus ?p1) = None \<and>
      users (store (RegisterView_post decimal_schema campus ?p1)) = users campus @ [u] \<and>
      user_id u = 6 \<and> username u = ''erin'' \<and> email u = ''erin@x.com'' \<and>
      password u = ''sha$wp'' \<and> role u = ''Student'' \<and>
      students (store (RegisterView_post decimal_schema campus ?p1))
        = students campus @ [\<lparr>student_user = user_id u, courses = {||}\<rparr>]"
    using register_creates_user_and_profile [where S = decimal_schema and d = campus
        and post = ?p1 and uname = "''erin''" and em = "''erin@x.com''" and pw = "''pw''"
        and rl = "''STUDENT''", THEN conjunct2, rule_format, OF _ _ _ _ f(1) nu(1) ne(1) ps free]
    unfolding sel seq lower_STUDENT by simp blast
  have t2: "\<exists>u. users (store (RegisterView_post decimal_schema campus ?p2)) = users campus @ [u] \<and>
      user_id u = 6 \<and> username u = ''erin'' \<and> email u = ''erin@x.com'' \<and>
      password u = ''sha$wp'' \<and> role u = ''Faculty'' \<and>
      students (store (RegisterView_post decimal_schema campus ?p2)) = students campus"
    using register_creates_user_and_profile [where S = decimal_schema and d = campus
        and post = ?p2 and uname = "''erin''" and em = "''erin@x.com''" and pw = "''pw''"
        and rl = "''Teacher''", THEN conjunct2, rule_format, OF _ _ _ _ f(2) nu(2) ne(2) ps free]
    unfolding sel seq using lower_Teacher by simp blast
  have t3: "RegisterView_post decimal_schema campus ?p3
     = \<lparr>response = Render ''register.html'' [(''error_message'', Text_of IntegrityError)],
        flashes = [], logged_in = None, store = campus\<rparr>"
    using register_creates_user_and_profile [where S = decimal_schema and d = campus
        and post = ?p3 and uname = "CHR 0xEF # CHR 0xBD # CHR 0x82 # ''ob''"
        and em = "''wide@x.com''" and pw = "''pw''"
        and rl = "''student''", THEN conjunct1, rule_format, OF _ _ _ _ f(3) nu(3) ne(3) ps taken]
    by simp
  from t1 obtain u1 where u1: "response (RegisterView_post decimal_schema campus ?p1) = Redirect ''login''"
      "logged_in (RegisterView_post decimal_schema campus ?p1) = None"
      "users (store (RegisterView_post decimal_schema campus ?p1)) = users campus @ [u1]"
      "user_id u1 = 6" "username u1 = ''erin''" "email u1 = ''erin@x.com''"
      "password u1 = ''sha$wp''" "role u1 = ''Student''"
      "students (store (RegisterView_post decimal_schema campus ?p1))
        = students campus @ [\<lparr>student_user = user_id u1, courses = {||}\<rparr>]"
    by blast
  have e1: "u1 = \<lparr>user_id = 6, username = ''erin'', email = ''erin@x.com'',
                        password = ''sha$wp'', role = ''Student''\<rparr>"
    using u1(4-8) by (intro user.equality) simp_all
  from t2 obtain u2 where u2:
      "users (store (RegisterView_post decimal_schema campus ?p2)) = users campus @ [u2]"
      "user_id u2 = 6" "username u2 = ''erin''" "email u2 = ''erin@x.com''"
      "password u2 = ''sha$wp''" "role u2 = ''Faculty''"
      "students (store (RegisterView_post decimal_schema campus ?p2)) = students campus"
    by blast
  have e2: "u2 = \<lparr>user_id = 6, username = ''erin'', email = ''erin@x.com'',
                        password = ''sha$wp'', role = ''Faculty''\<rparr>"
    using u2(2-6) by (intro user.equality) simp_all
  show ?thesis
    using u1(1,2,3,9) u2(1,7) t3 unfolding e1 [symmetric] e2 [symmetric] u1(4) by blast
qed

text \<open>
  The claim as worded fails on a username that only its normal form makes a duplicate:
  the fullwidth letter a followed by \<^verbatim>\<open>lice\<close> is a text that no user of the example store
  has, and so is the email, yet no user is created, because the stored form \<^verbatim>\<open>alice\<close> is
  taken.
\<close>

theorem register_wide_username_counterexample:
  "fields_present (map_of [(''username'', CHR 0xEF # CHR 0xBD # CHR 0x81 # ''lice''),
      (''email'', ''wide@x.com''), (''password'', ''pw''), (''role'', ''student'')]) \<and>
   \<not> username_exists campus (map_of [(''username'', CHR 0xEF # CHR 0xBD # CHR 0x81 # ''lice''),
      (''email'', ''wide@x.com''), (''password'', ''pw''), (''role'', ''student'')]) \<and>
   \<not> email_exists campus (map_of [(''username'', CHR 0xEF # CHR 0xBD # CHR 0x81 # ''lice''),
      (''email'', ''wide@x.com''), (''password'', ''pw''), (''role'', ''student'')]) \<and>
   RegisterView_post decimal_schema campus
     (map_of [(''username'', CHR 0xEF # CHR 0xBD # CHR 0x81 # ''lice''),
      (''email'', ''wide@x.com''), (''password'', ''pw''), (''role'', ''student'')]) =
     \<lparr>response = Render ''register.html'' [(''error_message'', Text_of IntegrityError)],
      flashes = [], logged_in = None, store = campus\<rparr>"
proof -
  let ?p = "map_of [(''username'', CHR 0xEF # CHR 0xBD # CHR 0x81 # ''lice''),
      (''email'', ''wide@x.com''), (''password'', ''pw''), (''role'', ''student'')]"
  have f: "fields_present ?p" by (simp add: fields_present_def truthy_def)
  have nu: "\<not> username_exists campus ?p" and ne: "\<not> email_exists campus ?p"
    by (simp_all add: username_exists_def email_exists_def campus_def alice_def
        faculty_jane_def bob_def carol_def dave_def)
  have cu: "create_user decimal_schema campus (CHR 0xEF # CHR 0xBD # CHR 0x81 # ''lice'')
      ''wide@x.com'' ''pw'' r = Inl IntegrityError" for r
    unfolding create_user_def Let_def
    by (simp add: decimal_schema_def plain_wide_alice campus_def alice_def
        del: plain_letters.simps)
  have "RegisterView_post decimal_schema campus ?p =
     \<lparr>response = Render ''register.html'' [(''error_message'', Text_of IntegrityError)],
      flashes = [], logged_in = None, store = campus\<rparr>"
    using nu ne
    by (simp add: RegisterView_post_def username_exists_def email_exists_def cu
        register_error_def)
  with f nu ne show ?thesis by simp
qed

subsection \<open>Registration: what is refused\<close>

text \<open>
  Claim C5. A registration is refused, and the store is the one before the request (no
  user and no profile is created), in each of these cases, tested in this order: a
  required field is missing or empty (\<^verbatim>\<open>Please fill in all required fields\<close>); the
  username is in use (\<^verbatim>\<open>Username already exists\<close>); the email is in use
  (\<^verbatim>\<open>Email already exists\<close>).
\<close>

theorem register_errors_create_nothing:
  "(\<not> fields_present post \<longrightarrow>
      RegisterView_post S d post =
        \<lparr>response = Render ''register.html''
           [(''error_message'', Text ''Please fill in all required fields'')],
         flashes = [], logged_in = None, store = d\<rparr>) \<and>
   (fields_present post \<and> username_exists d post \<longrightarrow>
      RegisterView_post S d post =
        \<lparr>response = Render ''register.html''
           [(''error_message'', Text ''Username already exists'')],
         flashes = [], logged_in = None, store = d\<rparr>) \<and>
   (fields_present post \<and> \<not> username_exists d post \<and> email_exists d post \<longrightarrow>
      RegisterView_post S d post =
        \<lparr>response = Render ''register.html''
           [(''error_message'', Text ''Email already exists'')],
         flashes = [], logged_in = None, store = d\<rparr>)"
  using register_missing [of post S d] register_dup_user [of post d S]
    register_dup_email [of post d S]
  by (simp add: register_error_def)

theorem register_errors_create_nothing_witness:
  "\<not> fields_present (map_of [(''username'', ''erin''), (''email'', ''erin@x.com''), (''role'', ''student'')]) \<and>
   RegisterView_post decimal_schema campus
      (map_of [(''username'', ''erin''), (''email'', ''erin@x.com''), (''role'', ''student'')]) =
     \<lparr>response = Render ''register.html''
        [(''error_message'', Text ''Please fill in all required fields'')],
      flashes = [], logged_in = None, store = campus\<rparr> \<and>
   username_exists campus (map_of [(''username'', ''alice''), (''email'', ''new@x.com''),
      (''password'', ''pw''), (''role'', ''student'')]) \<and>
   RegisterView_post decimal_schema campus
      (map_of [(''username'', ''alice''), (''email'', ''new@x.com''),
        (''password'', ''pw''), (''role'', ''student'')]) =
     \<lparr>response = Render ''register.html'' [(''error_message'', Text ''Username already exists'')],
      flashes = [], logged_in = None, store = campus\<rparr> \<and>
   email_exists campus (map_of [(''username'', ''erin''), (''email'', ''bob@x.com''),
      (''password'', ''pw''), (''role'', ''faculty'')]) \<and>
   RegisterView_post decimal_schema campus
      (map_of [(''username'', ''erin''), (''email'', ''bob@x.com''),
        (''password'', ''pw''), (''role'', ''faculty'')]) =
     \<lparr>response = Render ''register.html'' [(''error_message'', Text ''Email already exists'')],
      flashes = [], logged_in = None, store = campus\<rparr>"
proof -
  let ?p1 = "map_of [(''username'', ''erin''), (''email'', ''erin@x.com''), (''role'', ''student'')]"
  let ?p2 = "map_of [(''username'', ''alice''), (''email'', ''new@x.com''),
      (''password'', ''pw''), (''role'', ''student'')]"
  let ?p3 = "map_of [(''username'', ''erin''), (''email'', ''bob@x.com''),
      (''password'', ''pw''), (''role'', ''faculty'')]"
  have h1: "\<not> fields_present ?p1" by (simp add: fields_present_def truthy_def)
  have h2: "fields_present ?p2" "username_exists campus ?p2"
    by (simp_all add: fields_present_def truthy_def username_exists_def campus_def alice_def)
  have h3: "fields_present ?p3" "\<not> username_exists campus ?p3" "email_exists campus ?p3"
    by (simp_all add: fields_present_def truthy_def username_exists_def email_exists_def
        campus_def alice_def faculty_jane_def bob_def carol_def dave_def)
  from h1 h2 h3 register_errors_create_nothing [of ?p1 decimal_schema campus]
    register_errors_create_nothing [of ?p2 decimal_schema campus]
    register_errors_create_nothing [of ?p3 decimal_schema campus]
  show ?thesis by blast
qed


subsection \<open>The limit of two courses\<close>

text \<open>
  Claim C1. For a student with two or more enrolled courses, a POST with action
  \<^verbatim>\<open>enroll\<close> and a course id that resolves to a course fails with
  \<^verbatim>\<open>You cannot enroll in more than 2 courses.\<close> and leaves the store, and so the enrolled
  set, as it was. Consequently, from a store in which no profile holds more than two
  courses (and a user has one profile at most, as the one-to-one relation demands), no
  sequence of requests to the views, enroll and drop among them, leads to a store where
  a student has more than two courses.
\<close>

theorem enrollment_limit:
  "(role u = ''Student'' \<and> 2 \<le> courses_count d u \<and> post ''action'' = Some ''enroll'' \<and>
    Course_objects_get S d (post ''course_id'') = Inr c \<longrightarrow>
      StudentDashboardView_post S d u post =
        \<lparr>response = Redirect ''student-dashboard'',
         flashes = [Failure ''You cannot enroll in more than 2 courses.''],
         logged_in = None, store = d\<rparr>) \<and>
   (within_limit d \<and> one_profile_each d \<longrightarrow>
      within_limit (serve S d rs) \<and> one_profile_each (serve S d rs) \<and>
      (\<forall>v. courses_count (serve S d rs) v \<le> 2))"
proof (intro conjI impI allI)
  assume "role u = ''Student'' \<and> 2 \<le> courses_count d u \<and> post ''action'' = Some ''enroll'' \<and>
    Course_objects_get S d (post ''course_id'') = Inr c"
  then show "StudentDashboardView_post S d u post =
        \<lparr>response = Redirect ''student-dashboard'',
         flashes = [Failure ''You cannot enroll in more than 2 courses.''],
         logged_in = None, store = d\<rparr>"
    by (simp add: enroll_at_limit)
next
  assume "within_limit d \<and> one_profile_each d"
  then have "enrollment_inv (serve S d rs)"
    using inv_serve [of d S rs] by (simp add: enrollment_inv_def)
  then show "within_limit (serve S d rs)" and "one_profile_each (serve S d rs)"
    and "\<And>v. courses_count (serve S d rs) v \<le> 2"
    by (simp_all add: enrollment_inv_def courses_count_limit)
qed

lemma campus_limits: "within_limit campus \<and> one_profile_each campus"
  by (simp add: within_limit_def one_profile_each_def campus_def fcard_finsert_if fcard_fempty)

lemma campus_alice_count: "courses_count campus alice = 2"
  by (simp add: courses_count_def campus_alice_ids fcard_finsert_if fcard_fempty)

theorem enrollment_limit_witness:
  "role alice = ''Student'' \<and> courses_count campus alice = 2 \<and>
   StudentDashboardView_post decimal_schema campus alice
     (map_of [(''action'', ''enroll''), (''course_id'', ''3'')]) =
     \<lparr>response = Redirect ''student-dashboard'',
      flashes = [Failure ''You cannot enroll in more than 2 courses.''],
      logged_in = None, store = campus\<rparr> \<and>
   within_limit campus \<and> one_profile_each campus \<and>
   courses_count (serve decimal_schema campus
     [(Some 1, Student_post (map_of [(''action'', ''drop''), (''course_id'', ''1'')])),
      (Some 1, Student_post (map_of [(''action'', ''enroll''), (''course_id'', ''3'')])),
      (Some 1, Student_post (map_of [(''action'', ''enroll''), (''course_id'', ''1'')])),
      (Some 5, Student_post (map_of [(''action'', ''enroll''), (''course_id'', ''2'')]))]) alice \<le> 2"
proof -
  let ?p = "map_of [(''action'', ''enroll''), (''course_id'', ''3'')]"
  let ?rs = "[(Some 1, Student_post (map_of [(''action'', ''drop''), (''course_id'', ''1'')])),
      (Some 1, Student_post (map_of [(''action'', ''enroll''), (''course_id'', ''3'')])),
      (Some 1, Student_post (map_of [(''action'', ''enroll''), (''course_id'', ''1'')])),
      (Some 5, Student_post (map_of [(''action'', ''enroll''), (''course_id'', ''2'')]))]"
  have r: "role alice = ''Student''" by (simp add: alice_def)
  have g: "Course_objects_get decimal_schema campus (?p ''course_id'') = Inr optics"
    using campus_get_3 by simp
  have a: "?p ''action'' = Some ''enroll''" by simp
  note t = enrollment_limit [where u = alice and d = campus and post = "?p"
      and S = decimal_schema and c = optics and rs = "?rs"]
  from t r g a campus_alice_count campus_limits show ?thesis by simp
qed


subsection \<open>The student dashboard page\<close>

lemma courses_all_new_profile:
  "student_profile d u = None \<Longrightarrow>
   courses_all (d\<lparr>students := students d @ [\<lparr>student_user = user_id u, courses = {||}\<rparr>]\<rparr>) v
     = courses_all d v"
  by (simp add: courses_all_def enrolled_ids_new_profile)

lemma exclude_enrolled:
  "filter (\<lambda>c. course_id c \<notin> set (map course_id (courses_all d u))) (course_rows d)
     = filter (\<lambda>c. c \<notin> set (courses_all d u)) (course_rows d)"
  by (rule filter_cong) (auto simp: courses_all_def)

lemma student_profile_created:
  "student_profile d u = None \<Longrightarrow>
   student_profile (d\<lparr>students := students d @ [\<lparr>student_user = user_id u, courses = {||}\<rparr>]\<rparr>) u
     = Some \<lparr>student_user = user_id u, courses = {||}\<rparr>"
  by (simp add: student_profile_def find_append_eq)

text \<open>
  Claim C6. A GET of the student dashboard by a user whose role is not \<^verbatim>\<open>Student\<close> is
  refused with \<^verbatim>\<open>Access denied. Student account required.\<close> and redirected to the login
  page, the store untouched. For a student, a missing profile is created (an empty one,
  and nothing else changes), and the page shows the enrolled courses, as available
  courses all courses but the enrolled ones, and \<^verbatim>\<open>can_enroll\<close> as whether fewer than two
  courses are enrolled.
\<close>

theorem student_dashboard_get:
  "(role u \<noteq> ''Student'' \<longrightarrow>
      StudentDashboardView_get d u =
        \<lparr>response = Redirect ''login'',
         flashes = [Failure ''Access denied. Student account required.''],
         logged_in = None, store = d\<rparr>) \<and>
   (role u = ''Student'' \<longrightarrow>
      store (StudentDashboardView_get d u) =
        (if student_profile d u = None
         then d\<lparr>students := students d @ [\<lparr>student_user = user_id u, courses = {||}\<rparr>]\<rparr>
         else d) \<and>
      student_profile (store (StudentDashboardView_get d u)) u \<noteq> None \<and>
      response (StudentDashboardView_get d u) =
        Render ''student-dashboard.html''
          [(''enrolled_courses'', Course_list (courses_all d u)),
           (''available_courses'',
              Course_list (filter (\<lambda>c. c \<notin> set (courses_all d u)) (course_rows d))),
           (''can_enroll'', Flag (length (courses_all d u) < 2))])"
proof (intro conjI impI)
  assume "role u \<noteq> ''Student''"
  then show "StudentDashboardView_get d u =
        \<lparr>response = Redirect ''login'',
         flashes = [Failure ''Access denied. Student account required.''],
         logged_in = None, store = d\<rparr>"
    by (simp add: StudentDashboardView_get_def)
next
  assume r: "role u = ''Student''"
  then show "store (StudentDashboardView_get d u) =
        (if student_profile d u = None
         then d\<lparr>students := students d @ [\<lparr>student_user = user_id u, courses = {||}\<rparr>]\<rparr>
         else d)"
    by (simp add: StudentDashboardView_get_def create_missing_profile_eq Let_def)
  then show "student_profile (store (StudentDashboardView_get d u)) u \<noteq> None"
    by (simp add: student_profile_created)
  show "response (StudentDashboardView_get d u) =
        Render ''student-dashboard.html''
          [(''enrolled_courses'', Course_list (courses_all d u)),
           (''available_courses'',
              Course_list (filter (\<lambda>c. c \<notin> set (courses_all d u)) (course_rows d))),
           (''can_enroll'', Flag (length (courses_all d u) < 2))]"
  proof (cases "student_profile d u")
    case None
    with r show ?thesis
      using exclude_enrolled [of d u]
      by (simp add: StudentDashboardView_get_def create_missing_profile_eq Let_def
          courses_all_new_profile)
  next
    case (Some p)
    with r show ?thesis
      using exclude_enrolled [of d u]
      by (simp add: StudentDashboardView_get_def create_missing_profile_eq Let_def)
  qed
qed

lemma campus_alice_courses: "courses_all campus alice = [logic, algebra]"
  by (simp add: courses_all_def campus_alice_ids)
    (simp add: campus_def logic_def algebra_def optics_def)

lemma campus_dave_courses: "courses_all campus dave = []"
  by (simp add: courses_all_def enrolled_ids_def student_profile_def campus_def dave_def)

theorem student_dashboard_get_witness:
  "role bob \<noteq> ''Student'' \<and>
   StudentDashboardView_get campus bob =
     \<lparr>response = Redirect ''login'',
      flashes = [Failure ''Access denied. Student account required.''],
      logged_in = None, store = campus\<rparr> \<and>
   role alice = ''Student'' \<and>
   store (StudentDashboardView_get campus alice) = campus \<and>
   response (StudentDashboardView_get campus alice) =
     Render ''student-dashboard.html''
       [(''enrolled_courses'', Course_list [logic, algebra]),
        (''available_courses'', Course_list [optics]),
        (''can_enroll'', Flag False)] \<and>
   role dave = ''Student'' \<and>
   students (store (StudentDashboardView_get campus dave)) =
     [\<lparr>student_user = 1, courses = {|1, 2|}\<rparr>, \<lparr>student_user = 5, courses = {||}\<rparr>] \<and>
   response (StudentDashboardView_get campus dave) =
     Render ''student-dashboard.html''
       [(''enrolled_courses'', Course_list []),
        (''available_courses'', Course_list [logic, algebra, optics]),
        (''can_enroll'', Flag True)]"
proof -
  have rb: "role bob \<noteq> ''Student''" by (simp add: bob_def)
  have ra: "role alice = ''Student''" by (simp add: alice_def)
  have rd: "role dave = ''Student''" by (simp add: dave_def)
  have pa: "student_profile campus alice \<noteq> None"
    by (simp add: student_profile_def campus_def alice_def)
  have pd: "student_profile campus dave = None"
    by (simp add: student_profile_def campus_def dave_def)
  have rows: "course_rows campus = [logic, algebra, optics]" by (simp add: campus_def)
  have neq: "optics \<noteq> logic" "optics \<noteq> algebra"
    by (simp_all add: logic_def algebra_def optics_def)
  have sd: "students (campus\<lparr>students := students campus @
        [\<lparr>student_user = user_id dave, courses = {||}\<rparr>]\<rparr>) =
      [\<lparr>student_user = 1, courses = {|1, 2|}\<rparr>, \<lparr>student_user = 5, courses = {||}\<rparr>]"
    by (simp add: campus_def dave_def)
  from student_dashboard_get [of bob campus] student_dashboard_get [of alice campus]
    student_dashboard_get [of dave campus] rb ra rd pa pd sd neq
  show ?thesis
    by (simp add: campus_alice_courses campus_dave_courses rows)
qed


subsection \<open>Dropping a course\<close>

text \<open>
  Claim C7, as the code has it. A student's POST with action \<^verbatim>\<open>drop\<close> redirects to the
  dashboard. If the course id resolves to a course, the course leaves the student's
  enrolled set and success is reported; if it was not enrolled, the set is as before and
  success is reported all the same. If the course id is missing, or is a key that names
  no course, the request fails with \<^verbatim>\<open>Course not found\<close>. If the course id is a text
  that the key field cannot read, the lookup raises the field's exception and the second
  handler reports that exception's text instead. In both failures every enrolled set is
  as before.
\<close>

theorem drop_course:
  assumes "role u = ''Student''" "post ''action'' = Some ''drop''"
  shows
    "response (StudentDashboardView_post S d u post) = Redirect ''student-dashboard'' \<and>
     (\<forall>c. Course_objects_get S d (post ''course_id'') = Inr c \<longrightarrow>
        flashes (StudentDashboardView_post S d u post)
          = [Success (''Successfully dropped '' @ course_name c)] \<and>
        enrolled_ids (store (StudentDashboardView_post S d u post)) u
          = enrolled_ids d u |-| {|course_id c|} \<and>
        (course_id c |\<notin>| enrolled_ids d u \<longrightarrow>
           enrolled_ids (store (StudentDashboardView_post S d u post)) u = enrolled_ids d u)) \<and>
     (post ''course_id'' = None \<or>
      (\<exists>t n. post ''course_id'' = Some t \<and> pk_of_text S t = Inr n \<and>
             n \<notin> course_id ` set (course_rows d)) \<longrightarrow>
        flashes (StudentDashboardView_post S d u post) = [Failure ''Course not found''] \<and>
        (\<forall>v. enrolled_ids (store (StudentDashboardView_post S d u post)) v = enrolled_ids d v)) \<and>
     (\<forall>t e. post ''course_id'' = Some t \<and> pk_of_text S t = Inl e \<longrightarrow>
        flashes (StudentDashboardView_post S d u post)
          = (if e = DoesNotExist then [Failure ''Course not found''] else [Failure_of e]) \<and>
        (\<forall>v. enrolled_ids (store (StudentDashboardView_post S d u post)) v = enrolled_ids d v))"
proof -
  define d1 where "d1 = (if student_profile d u = None
          then d\<lparr>students := students d @ [\<lparr>student_user = user_id u, courses = {||}\<rparr>]\<rparr>
          else d)"
  have out: "StudentDashboardView_post S d u post =
      \<lparr>response = Redirect ''student-dashboard'', flashes = fst (enroll_or_drop S d1 u post),
       logged_in = None, store = snd (enroll_or_drop S d1 u post)\<rparr>"
    unfolding d1_def by (rule student_post_eq [OF assms(1)])
  have rows: "course_rows d1 = course_rows d" by (simp add: d1_def)
  have get: "Course_objects_get S d1 (post ''course_id'') = Course_objects_get S d (post ''course_id'')"
    by (rule Course_objects_get_rows [OF rows])
  have ids: "enrolled_ids d1 v = enrolled_ids d v" for v
    by (simp add: d1_def enrolled_ids_new_profile)
  have hit: "enroll_or_drop S d1 u post =
      ([Success (''Successfully dropped '' @ course_name c)], courses_remove d1 u c)"
    if "Course_objects_get S d (post ''course_id'') = Inr c" for c
    by (rule enroll_or_drop_dropped [of S d1 post c u, unfolded get, OF that assms(2)])
  have miss: "enroll_or_drop S d1 u post = ([Failure ''Course not found''], d1)"
    if "post ''course_id'' = None \<or>
      (\<exists>t n. post ''course_id'' = Some t \<and> pk_of_text S t = Inr n \<and>
             n \<notin> course_id ` set (course_rows d))"
    by (rule enroll_or_drop_not_found [of S d1 post u, unfolded get,
          OF Course_objects_get_miss [OF that]])
  have unread: "enroll_or_drop S d1 u post =
      (if e = DoesNotExist then [Failure ''Course not found''] else [Failure_of e], d1)"
    if "post ''course_id'' = Some t \<and> pk_of_text S t = Inl e" for t e
  proof -
    from that have "Course_objects_get S d (post ''course_id'') = Inl e"
      by (simp add: Course_objects_get_unread)
    then show ?thesis
      by (rule enroll_or_drop_raised [of S d1 post e u, unfolded get])
  qed
  have ids_drop: "enrolled_ids (courses_remove d1 u c) u = enrolled_ids d u |-| {|course_id c|}"
    for c unfolding enrolled_ids_remove ids by simp
  have absent: "A |-| {|x|} = A" if "x |\<notin>| A" for A :: "nat fset" and x
    using that by auto
  have 1: "response (StudentDashboardView_post S d u post) = Redirect ''student-dashboard''"
    unfolding out by simp
  have 2: "flashes (StudentDashboardView_post S d u post)
          = [Success (''Successfully dropped '' @ course_name c)] \<and>
        enrolled_ids (store (StudentDashboardView_post S d u post)) u
          = enrolled_ids d u |-| {|course_id c|} \<and>
        (course_id c |\<notin>| enrolled_ids d u \<longrightarrow>
           enrolled_ids (store (StudentDashboardView_post S d u post)) u = enrolled_ids d u)"
    if "Course_objects_get S d (post ''course_id'') = Inr c" for c
    unfolding out hit [OF that] using ids_drop [of c] absent by simp
  have 3: "flashes (StudentDashboardView_post S d u post) = [Failure ''Course not found''] \<and>
        (\<forall>v. enrolled_ids (store (StudentDashboardView_post S d u post)) v = enrolled_ids d v)"
    if "post ''course_id'' = None \<or>
      (\<exists>t n. post ''course_id'' = Some t \<and> pk_of_text S t = Inr n \<and>
             n \<notin> course_id ` set (course_rows d))"
    unfolding out miss [OF that] using ids by simp
  have 4: "flashes (StudentDashboardView_post S d u post)
          = (if e = DoesNotExist then [Failure ''Course not found''] else [Failure_of e]) \<and>
        (\<forall>v. enrolled_ids (store (StudentDashboardView_post S d u post)) v = enrolled_ids d v)"
    if "post ''course_id'' = Some t \<and> pk_of_text S t = Inl e" for t e
    unfolding out unread [OF that] using ids by simp
  from 1 2 3 4 show ?thesis by (intro conjI allI impI) blast+
qed

theorem drop_course_witness:
  "role alice = ''Student'' \<and>
   flashes (StudentDashboardView_post decimal_schema campus alice
      (map_of [(''action'', ''drop''), (''course_id'', ''1'')])) = [Success ''Successfully dropped Logic''] \<and>
   enrolled_ids (store (StudentDashboardView_post decimal_schema campus alice
      (map_of [(''action'', ''drop''), (''course_id'', ''1'')]))) alice = {|2|} \<and>
   flashes (StudentDashboardView_post decimal_schema campus alice
      (map_of [(''action'', ''drop''), (''course_id'', ''3'')])) = [Success ''Successfully dropped Optics''] \<and>
   enrolled_ids (store (StudentDashboardView_post decimal_schema campus alice
      (map_of [(''action'', ''drop''), (''course_id'', ''3'')]))) alice = {|1, 2|} \<and>
   flashes (StudentDashboardView_post decimal_schema campus alice
      (map_of [(''action'', ''drop''), (''course_id'', ''9'')])) = [Failure ''Course not found''] \<and>
   enrolled_ids (store (StudentDashboardView_post decimal_schema campus alice
      (map_of [(''action'', ''drop''), (''course_id'', ''9'')]))) alice = {|1, 2|} \<and>
   flashes (StudentDashboardView_post decimal_schema campus alice
      (map_of [(''action'', ''drop'')])) = [Failure ''Course not found''] \<and>
   flashes (StudentDashboardView_post decimal_schema campus alice
      (map_of [(''action'', ''drop''), (''course_id'', ''abc'')])) = [Failure_of (ValueError ''abc'')] \<and>
   enrolled_ids (store (StudentDashboardView_post decimal_schema campus alice
      (map_of [(''action'', ''drop''), (''course_id'', ''abc'')]))) alice = {|1, 2|}"
proof -
  let ?p1 = "map_of [(''action'', ''drop''), (''course_id'', ''1'')]"
  let ?p3 = "map_of [(''action'', ''drop''), (''course_id'', ''3'')]"
  let ?p9 = "map_of [(''action'', ''drop''), (''course_id'', ''9'')]"
  let ?p0 = "map_of [(''action'', ''drop'')]"
  let ?pa = "map_of [(''action'', ''drop''), (''course_id'', ''abc'')]"
  have r: "role alice = ''Student''" by (simp add: alice_def)
  have n9: "pk_of_text decimal_schema ''9'' = Inr 9 \<and> 9 \<notin> course_id ` set (course_rows campus)"
    by (simp add: decimal_schema_def decimal_9 campus_def logic_def algebra_def optics_def)
  have na: "pk_of_text decimal_schema ''abc'' = Inl (ValueError ''abc'')"
    by (simp add: decimal_schema_def decimal_abc)
  have a1: "?p1 ''action'' = Some ''drop''" and a3: "?p3 ''action'' = Some ''drop''"
    and a9: "?p9 ''action'' = Some ''drop''" and a0: "?p0 ''action'' = Some ''drop''"
    and aa: "?pa ''action'' = Some ''drop''" by simp_all
  have c1: "?p1 ''course_id'' = Some ''1''" and c3: "?p3 ''course_id'' = Some ''3''"
    and c9: "?p9 ''course_id'' = Some ''9''" and c0: "?p0 ''course_id'' = None"
    and ca: "?pa ''course_id'' = Some ''abc''" by simp_all
  note t1 = drop_course [where u = alice and post = "?p1" and S = decimal_schema and d = campus, OF r a1]
  note t3 = drop_course [where u = alice and post = "?p3" and S = decimal_schema and d = campus, OF r a3]
  note t9 = drop_course [where u = alice and post = "?p9" and S = decimal_schema and d = campus, OF r a9]
  note t0 = drop_course [where u = alice and post = "?p0" and S = decimal_schema and d = campus, OF r a0]
  note ta = drop_course [where u = alice and post = "?pa" and S = decimal_schema and d = campus, OF r aa]
  have g1: "Course_objects_get decimal_schema campus (?p1 ''course_id'') = Inr logic"
    unfolding c1 by (rule campus_get_1)
  have g3: "Course_objects_get decimal_schema campus (?p3 ''course_id'') = Inr optics"
    unfolding c3 by (rule campus_get_3)
  have g9: "?p9 ''course_id'' = None \<or>
      (\<exists>t n. ?p9 ''course_id'' = Some t \<and> pk_of_text decimal_schema t = Inr n \<and>
             n \<notin> course_id ` set (course_rows campus))"
    unfolding c9 using n9 by simp
  have g0: "?p0 ''course_id'' = None \<or>
      (\<exists>t n. ?p0 ''course_id'' = Some t \<and> pk_of_text decimal_schema t = Inr n \<and>
             n \<notin> course_id ` set (course_rows campus))"
    unfolding c0 by simp
  note h1 = t1 [THEN conjunct2, THEN conjunct1, rule_format, OF g1]
  note h3 = t3 [THEN conjunct2, THEN conjunct1, rule_format, OF g3]
  note h9 = t9 [THEN conjunct2, THEN conjunct2, THEN conjunct1, rule_format, OF g9]
  note h0 = t0 [THEN conjunct2, THEN conjunct2, THEN conjunct1, rule_format, OF g0]
  note ha = ta [THEN conjunct2, THEN conjunct2, THEN conjunct2, rule_format, OF conjI [OF ca na]]
  have f1: "flashes (StudentDashboardView_post decimal_schema campus alice ?p1)
      = [Success (''Successfully dropped '' @ course_name logic)]"
    and e1: "enrolled_ids (store (StudentDashboardView_post decimal_schema campus alice ?p1)) alice
      = enrolled_ids campus alice |-| {|course_id logic|}"
    using h1 by simp_all
  have f3: "flashes (StudentDashboardView_post decimal_schema campus alice ?p3)
      = [Success (''Successfully dropped '' @ course_name optics)]"
    and e3: "enrolled_ids (store (StudentDashboardView_post decimal_schema campus alice ?p3)) alice
      = enrolled_ids campus alice |-| {|course_id optics|}"
    using h3 by simp_all
  have f9: "flashes (StudentDashboardView_post decimal_schema campus alice ?p9)
      = [Failure ''Course not found'']"
    and e9: "enrolled_ids (store (StudentDashboardView_post decimal_schema campus alice ?p9)) alice
      = enrolled_ids campus alice"
    using h9 by simp_all
  have f0: "flashes (StudentDashboardView_post decimal_schema campus alice ?p0)
      = [Failure ''Course not found'']"
    using h0 by simp
  have fa: "flashes (StudentDashboardView_post decimal_schema campus alice ?pa)
      = [Failure_of (ValueError ''abc'')]"
    and ea: "enrolled_ids (store (StudentDashboardView_post decimal_schema campus alice ?pa)) alice
      = enrolled_ids campus alice"
    using ha by simp_all
  have m1: "{|1, 2::nat|} |-| {|1|} = {|2|}" by auto
  have m3: "{|1, 2::nat|} |-| {|3|} = {|1, 2|}" by auto
  show ?thesis
    unfolding f1 e1 f3 e3 f9 e9 f0 fa ea campus_alice_ids
    using r m1 m3 by (simp add: logic_def optics_def)
qed

text \<open>
  The claim as it was worded fails on a course id that is no key: the text \<^verbatim>\<open>abc\<close>
  resolves to no course, and the message is the exception's, not \<^verbatim>\<open>Course not found\<close>.
\<close>

theorem drop_unreadable_course_id_counterexample:
  "role alice = ''Student'' \<and>
   Course_objects_get decimal_schema campus (Some ''abc'') = Inl (ValueError ''abc'') \<and>
   flashes (StudentDashboardView_post decimal_schema campus alice
      (map_of [(''action'', ''drop''), (''course_id'', ''abc'')])) = [Failure_of (ValueError ''abc'')] \<and>
   flashes (StudentDashboardView_post decimal_schema campus alice
      (map_of [(''action'', ''drop''), (''course_id'', ''abc'')])) \<noteq> [Failure ''Course not found'']"
proof -
  have r: "role alice = ''Student''" by (simp add: alice_def)
  have g: "Course_objects_get decimal_schema campus (Some ''abc'') = Inl (ValueError ''abc'')"
    by (simp add: Course_objects_get_def decimal_schema_def decimal_abc)
  have p: "student_profile campus alice = Some \<lparr>student_user = 1, courses = {|1, 2|}\<rparr>"
    by (simp add: student_profile_def campus_def alice_def)
  have c: "map_of [(''action'', ''drop''), (''course_id'', ''abc'')] ''course_id'' = Some ''abc''"
    by simp
  have f: "flashes (StudentDashboardView_post decimal_schema campus alice
      (map_of [(''action'', ''drop''), (''course_id'', ''abc'')])) = [Failure_of (ValueError ''abc'')]"
    unfolding student_post_eq [OF r] p
    using enroll_or_drop_raised [of decimal_schema campus
        "map_of [(''action'', ''drop''), (''course_id'', ''abc'')]" "ValueError ''abc''" alice]
      g
    unfolding c by simp
  show ?thesis using r g f by simp
qed

subsection \<open>An action that is neither enroll nor drop\<close>

lemma enroll_or_drop_other:
  "Course_objects_get S d1 (post ''course_id'') = Inr c \<Longrightarrow>
   post ''action'' \<noteq> Some ''enroll'' \<Longrightarrow> post ''action'' \<noteq> Some ''drop'' \<Longrightarrow>
   enroll_or_drop S d1 u post = ([], d1)"
  by (simp add: enroll_or_drop_def)

text \<open>
  Claim C10. A student's POST whose action is neither \<^verbatim>\<open>enroll\<close> nor \<^verbatim>\<open>drop\<close> (or
  is missing), with a course id that resolves to a course, queues no message, changes
  no enrolled set, no user and no course, and redirects to the student dashboard; the
  store changes at most by the empty profile that the view creates for a student who
  had none.
\<close>

theorem unknown_action_ignored:
  assumes "role u = ''Student''" "post ''action'' \<noteq> Some ''enroll''"
    "post ''action'' \<noteq> Some ''drop''"
    "Course_objects_get S d (post ''course_id'') = Inr c"
  shows
    "response (StudentDashboardView_post S d u post) = Redirect ''student-dashboard'' \<and>
     flashes (StudentDashboardView_post S d u post) = [] \<and>
     (\<forall>v. enrolled_ids (store (StudentDashboardView_post S d u post)) v = enrolled_ids d v) \<and>
     users (store (StudentDashboardView_post S d u post)) = users d \<and>
     course_rows (store (StudentDashboardView_post S d u post)) = course_rows d \<and>
     (student_profile d u \<noteq> None \<longrightarrow> store (StudentDashboardView_post S d u post) = d)"
proof -
  let ?d1 = "if student_profile d u = None
          then d\<lparr>students := students d @ [\<lparr>student_user = user_id u, courses = {||}\<rparr>]\<rparr>
          else d"
  have rows: "course_rows ?d1 = course_rows d" by simp
  have get: "Course_objects_get S ?d1 (post ''course_id'') = Course_objects_get S d (post ''course_id'')"
    by (rule Course_objects_get_rows [OF rows])
  have body: "enroll_or_drop S ?d1 u post = ([], ?d1)"
    by (rule enroll_or_drop_other [of S "?d1" post c u, unfolded get, OF assms(4) assms(2) assms(3)])
  have ids: "enrolled_ids ?d1 v = enrolled_ids d v" for v
    by (simp add: enrolled_ids_new_profile)
  have "users ?d1 = users d" by simp
  with rows ids show ?thesis
    unfolding student_post_eq [OF assms(1)] body by (simp del: if_split cong: if_cong)
qed

theorem unknown_action_ignored_witness:
  "role alice = ''Student'' \<and>
   StudentDashboardView_post decimal_schema campus alice
     (map_of [(''action'', ''swap''), (''course_id'', ''3'')]) =
     \<lparr>response = Redirect ''student-dashboard'', flashes = [], logged_in = None, store = campus\<rparr>"
proof -
  let ?p = "map_of [(''action'', ''swap''), (''course_id'', ''3'')]"
  have r: "role alice = ''Student''" by (simp add: alice_def)
  have a: "?p ''action'' \<noteq> Some ''enroll''" "?p ''action'' \<noteq> Some ''drop''" by simp_all
  have g: "Course_objects_get decimal_schema campus (?p ''course_id'') = Inr optics"
    using campus_get_3 by simp
  have pr: "student_profile campus alice \<noteq> None"
    by (simp add: student_profile_def campus_def alice_def)
  note t = unknown_action_ignored [where u = alice and post = "?p" and S = decimal_schema
      and d = campus and c = optics, OF r a g]
  have eq: "x = \<lparr>response = response x, flashes = flashes x, logged_in = logged_in x, store = store x\<rparr>"
    for x :: outcome by simp
  have li: "logged_in (StudentDashboardView_post decimal_schema campus alice ?p) = None"
    by (simp add: student_post_eq [OF r])
  from t pr li r show ?thesis
    by (subst eq) simp
qed


subsection \<open>Update and delete are scoped to the requester's courses\<close>

text \<open>
  Claim C2, as the code has it. Take a faculty user's POST with action \<^verbatim>\<open>update\<close> or
  \<^verbatim>\<open>delete\<close>.

  \<^item> If the course id is a non-empty text that reads as a key, and no course has that key
    together with the requester as instructor (there is no such course, or it is another
    user's), the request fails with \<^verbatim>\<open>Course not found\<close> and the store is as before.

  \<^item> If the course id is missing or empty, the guard \<^verbatim>\<open>and course_id\<close> skips the branch:
    no message at all, the store as before.

  \<^item> If the course id is a non-empty text that the key field cannot read, the lookup
    raises the field's exception, and \<^verbatim>\<open>update\<close> reports that exception's text through
    its second handler; the store is as before.

  \<^item> The store changes, or success is reported, only if the lookup returned a course of
    the store whose instructor is the requester.
\<close>

theorem faculty_update_delete_scoped:
  assumes "role u = ''Faculty''"
    "post ''action'' = Some ''update'' \<or> post ''action'' = Some ''delete''"
  shows
    "(\<forall>t n. post ''course_id'' = Some t \<and> t \<noteq> [] \<and> pk_of_text S t = Inr n \<and>
        \<not> list_ex (\<lambda>c. course_id c = n \<and> instructor c = user_id u) (course_rows d) \<longrightarrow>
        FacultyDashboardView_post S d u post =
          \<lparr>response = Redirect ''faculty-dashboard'', flashes = [Failure ''Course not found''],
           logged_in = None, store = d\<rparr>) \<and>
     (\<not> truthy (post ''course_id'') \<longrightarrow>
        FacultyDashboardView_post S d u post =
          \<lparr>response = Redirect ''faculty-dashboard'', flashes = [],
           logged_in = None, store = d\<rparr>) \<and>
     (\<forall>t e. post ''action'' = Some ''update'' \<and> post ''course_id'' = Some t \<and> t \<noteq> [] \<and>
        pk_of_text S t = Inl e \<longrightarrow>
        FacultyDashboardView_post S d u post =
          \<lparr>response = Redirect ''faculty-dashboard'',
           flashes = (if e = DoesNotExist then [Failure ''Course not found'']
                      else [Failure_of e]),
           logged_in = None, store = d\<rparr>) \<and>
     (store (FacultyDashboardView_post S d u post) \<noteq> d \<or>
      flashes (FacultyDashboardView_post S d u post) = [Success ''Course deleted successfully''] \<or>
      flashes (FacultyDashboardView_post S d u post) = [Success ''Course updated successfully'']
      \<longrightarrow> (\<exists>c. Course_objects_get_owned S d (post ''course_id'') u = Inr c \<and>
               c \<in> set (course_rows d) \<and> instructor c = user_id u))"
proof -
  have eq: "FacultyDashboardView_post S d u post =
     (if truthy (post ''course_id'') then
        (case Course_objects_get_owned S d (post ''course_id'') u of
           Inr c \<Rightarrow>
             (if post ''action'' = Some ''delete'' then
                \<lparr>response = Redirect ''faculty-dashboard'',
                 flashes = [Success ''Course deleted successfully''],
                 logged_in = None, store = course_delete d c\<rparr>
              else
                (case update_course S d c post of
                   Inr d1 \<Rightarrow> \<lparr>response = Redirect ''faculty-dashboard'',
                           flashes = [Success ''Course updated successfully''],
                           logged_in = None, store = d1\<rparr>
                 | Inl e \<Rightarrow> \<lparr>response = Redirect ''faculty-dashboard'',
                           flashes = (if e = DoesNotExist then [Failure ''Course not found'']
                                      else [Failure_of e]),
                           logged_in = None, store = d\<rparr>))
         | Inl DoesNotExist \<Rightarrow> \<lparr>response = Redirect ''faculty-dashboard'',
                     flashes = [Failure ''Course not found''], logged_in = None, store = d\<rparr>
         | Inl e \<Rightarrow>
             (if post ''action'' = Some ''delete'' then
                \<lparr>response = Uncaught e, flashes = [], logged_in = None, store = d\<rparr>
              else \<lparr>response = Redirect ''faculty-dashboard'',
                     flashes = [Failure_of e], logged_in = None, store = d\<rparr>))
      else \<lparr>response = Redirect ''faculty-dashboard'', flashes = [],
             logged_in = None, store = d\<rparr>)"
    using assms(2)
  proof
    assume a: "post ''action'' = Some ''update''"
    show ?thesis
      unfolding faculty_update_eq [where S = S and d = d and u = u and post = post, OF assms(1) a]
      using a by (simp split: sum.splits exn.splits)
  next
    assume a: "post ''action'' = Some ''delete''"
    show ?thesis
      unfolding faculty_delete_eq [where S = S and d = d and u = u and post = post, OF assms(1) a]
      using a by (simp split: sum.splits exn.splits)
  qed
  have miss: "FacultyDashboardView_post S d u post =
          \<lparr>response = Redirect ''faculty-dashboard'', flashes = [Failure ''Course not found''],
           logged_in = None, store = d\<rparr>"
    if "post ''course_id'' = Some t \<and> t \<noteq> [] \<and> pk_of_text S t = Inr n \<and>
        \<not> list_ex (\<lambda>c. course_id c = n \<and> instructor c = user_id u) (course_rows d)" for t n
  proof -
    from that have "Course_objects_get_owned S d (post ''course_id'') u = Inl DoesNotExist"
      using get_owned_miss [of S t n u d] by simp
    moreover from that have "truthy (post ''course_id'')" by (simp add: truthy_def)
    ultimately show ?thesis unfolding eq by simp
  qed
  have skip: "FacultyDashboardView_post S d u post =
          \<lparr>response = Redirect ''faculty-dashboard'', flashes = [],
           logged_in = None, store = d\<rparr>" if "\<not> truthy (post ''course_id'')"
    using that unfolding eq by simp
  have owned: "\<exists>c. Course_objects_get_owned S d (post ''course_id'') u = Inr c \<and>
               c \<in> set (course_rows d) \<and> instructor c = user_id u"
    if "store (FacultyDashboardView_post S d u post) \<noteq> d \<or>
      flashes (FacultyDashboardView_post S d u post) = [Success ''Course deleted successfully''] \<or>
      flashes (FacultyDashboardView_post S d u post) = [Success ''Course updated successfully'']"
  proof (cases "Course_objects_get_owned S d (post ''course_id'') u")
    case (Inl e)
    with that show ?thesis unfolding eq by (cases e) (simp_all split: if_splits)
  next
    case (Inr c)
    with get_owned_InrD [OF Inr] show ?thesis by simp
  qed
  have unread: "FacultyDashboardView_post S d u post =
          \<lparr>response = Redirect ''faculty-dashboard'',
           flashes = (if e = DoesNotExist then [Failure ''Course not found'']
                      else [Failure_of e]),
           logged_in = None, store = d\<rparr>"
    if "post ''action'' = Some ''update'' \<and> post ''course_id'' = Some t \<and> t \<noteq> [] \<and>
        pk_of_text S t = Inl e" for t e
  proof -
    from that have g: "Course_objects_get_owned S d (post ''course_id'') u = Inl e"
      using get_owned_unread [of S t e d u] by simp
    from that have "truthy (post ''course_id'')" "post ''action'' \<noteq> Some ''delete''"
      by (simp_all add: truthy_def)
    then show ?thesis unfolding eq g by (cases e) simp_all
  qed
  show ?thesis
  proof (intro conjI allI impI)
    fix t n
    assume "post ''course_id'' = Some t \<and> t \<noteq> [] \<and> pk_of_text S t = Inr n \<and>
        \<not> list_ex (\<lambda>c. course_id c = n \<and> instructor c = user_id u) (course_rows d)"
    then show "FacultyDashboardView_post S d u post =
          \<lparr>response = Redirect ''faculty-dashboard'', flashes = [Failure ''Course not found''],
           logged_in = None, store = d\<rparr>" by (rule miss)
  next
    assume "\<not> truthy (post ''course_id'')"
    then show "FacultyDashboardView_post S d u post =
          \<lparr>response = Redirect ''faculty-dashboard'', flashes = [],
           logged_in = None, store = d\<rparr>" by (rule skip)
  next
    fix t e
    assume "post ''action'' = Some ''update'' \<and> post ''course_id'' = Some t \<and> t \<noteq> [] \<and>
        pk_of_text S t = Inl e"
    then show "FacultyDashboardView_post S d u post =
          \<lparr>response = Redirect ''faculty-dashboard'',
           flashes = (if e = DoesNotExist then [Failure ''Course not found'']
                      else [Failure_of e]),
           logged_in = None, store = d\<rparr>" by (rule unread)
  next
    assume "store (FacultyDashboardView_post S d u post) \<noteq> d \<or>
      flashes (FacultyDashboardView_post S d u post) = [Success ''Course deleted successfully''] \<or>
      flashes (FacultyDashboardView_post S d u post) = [Success ''Course updated successfully'']"
    then show "\<exists>c. Course_objects_get_owned S d (post ''course_id'') u = Inr c \<and>
               c \<in> set (course_rows d) \<and> instructor c = user_id u" by (rule owned)
  qed
qed

theorem faculty_update_delete_scoped_witness:
  "role carol = ''Faculty'' \<and> instructor logic \<noteq> user_id carol \<and>
   FacultyDashboardView_post decimal_schema campus carol
     (map_of [(''action'', ''delete''), (''course_id'', ''1'')]) =
     \<lparr>response = Redirect ''faculty-dashboard'', flashes = [Failure ''Course not found''],
      logged_in = None, store = campus\<rparr> \<and>
   FacultyDashboardView_post decimal_schema campus carol
     (map_of [(''action'', ''update''), (''course_id'', ''1''), (''name'', ''Mine'')]) =
     \<lparr>response = Redirect ''faculty-dashboard'', flashes = [Failure ''Course not found''],
      logged_in = None, store = campus\<rparr> \<and>
   role bob = ''Faculty'' \<and>
   FacultyDashboardView_post decimal_schema campus bob
     (map_of [(''action'', ''delete''), (''course_id'', ''9'')]) =
     \<lparr>response = Redirect ''faculty-dashboard'', flashes = [Failure ''Course not found''],
      logged_in = None, store = campus\<rparr> \<and>
   FacultyDashboardView_post decimal_schema campus bob (map_of [(''action'', ''delete'')]) =
     \<lparr>response = Redirect ''faculty-dashboard'', flashes = [], logged_in = None,
      store = campus\<rparr> \<and>
   FacultyDashboardView_post decimal_schema campus bob
     (map_of [(''action'', ''update''), (''course_id'', ''abc'')]) =
     \<lparr>response = Redirect ''faculty-dashboard'', flashes = [Failure_of (ValueError ''abc'')],
      logged_in = None, store = campus\<rparr> \<and>
   store (FacultyDashboardView_post decimal_schema campus bob
     (map_of [(''action'', ''delete''), (''course_id'', ''1'')])) \<noteq> campus \<and>
   Course_objects_get_owned decimal_schema campus (Some ''1'') bob = Inr logic \<and>
   logic \<in> set (course_rows campus) \<and> instructor logic = user_id bob"
proof -
  let ?p7 = "map_of [(''action'', ''delete''), (''course_id'', ''1'')]"
  let ?p1 = "map_of [(''action'', ''delete''), (''course_id'', ''1'')]"
  let ?p2 = "map_of [(''action'', ''update''), (''course_id'', ''1''), (''name'', ''Mine'')]"
  let ?p3 = "map_of [(''action'', ''delete''), (''course_id'', ''9'')]"
  let ?p4 = "map_of [(''action'', ''delete'')]"
  let ?p5 = "map_of [(''action'', ''update''), (''course_id'', ''abc'')]"
  have rc: "role carol = ''Faculty''" and rb: "role bob = ''Faculty''"
    by (simp_all add: carol_def bob_def)
  have ni: "instructor logic \<noteq> user_id carol" by (simp add: logic_def carol_def)
  have a1: "?p1 ''action'' = Some ''update'' \<or> ?p1 ''action'' = Some ''delete''"
    and a2: "?p2 ''action'' = Some ''update'' \<or> ?p2 ''action'' = Some ''delete''"
    and a3: "?p3 ''action'' = Some ''update'' \<or> ?p3 ''action'' = Some ''delete''"
    and a4: "?p4 ''action'' = Some ''update'' \<or> ?p4 ''action'' = Some ''delete''"
    and a5: "?p5 ''action'' = Some ''update'' \<or> ?p5 ''action'' = Some ''delete''"
    by simp_all
  have k1: "pk_of_text decimal_schema ''1'' = Inr 1" and k9: "pk_of_text decimal_schema ''9'' = Inr 9"
    and ka: "pk_of_text decimal_schema ''abc'' = Inl (ValueError ''abc'')"
    by (simp_all add: decimal_schema_def decimal_1 decimal_9 decimal_abc)
  have c1: "?p1 ''course_id'' = Some ''1'' \<and> ''1'' \<noteq> [] \<and> pk_of_text decimal_schema ''1'' = Inr 1 \<and>
      \<not> list_ex (\<lambda>c. course_id c = 1 \<and> instructor c = user_id carol) (course_rows campus)"
    using k1 campus_carol_1 by simp
  have c2: "?p2 ''course_id'' = Some ''1'' \<and> ''1'' \<noteq> [] \<and> pk_of_text decimal_schema ''1'' = Inr 1 \<and>
      \<not> list_ex (\<lambda>c. course_id c = 1 \<and> instructor c = user_id carol) (course_rows campus)"
    using k1 campus_carol_1 by simp
  have c3: "?p3 ''course_id'' = Some ''9'' \<and> ''9'' \<noteq> [] \<and> pk_of_text decimal_schema ''9'' = Inr 9 \<and>
      \<not> list_ex (\<lambda>c. course_id c = 9 \<and> instructor c = user_id bob) (course_rows campus)"
    using k9 campus_no_9 by simp
  have c4: "\<not> truthy (?p4 ''course_id'')" by (simp add: truthy_def)
  have c5: "?p5 ''action'' = Some ''update'' \<and> ?p5 ''course_id'' = Some ''abc'' \<and> ''abc'' \<noteq> [] \<and>
      pk_of_text decimal_schema ''abc'' = Inl (ValueError ''abc'')"
    using ka by simp
  note t1 = faculty_update_delete_scoped [where u = carol and post = "?p1" and S = decimal_schema
      and d = campus, OF rc a1]
  note t2 = faculty_update_delete_scoped [where u = carol and post = "?p2" and S = decimal_schema
      and d = campus, OF rc a2]
  note t3 = faculty_update_delete_scoped [where u = bob and post = "?p3" and S = decimal_schema
      and d = campus, OF rb a3]
  note t4 = faculty_update_delete_scoped [where u = bob and post = "?p4" and S = decimal_schema
      and d = campus, OF rb a4]
  note t5 = faculty_update_delete_scoped [where u = bob and post = "?p5" and S = decimal_schema
      and d = campus, OF rb a5]
  note e1 = t1 [THEN conjunct1, rule_format, OF c1]
  note e2 = t2 [THEN conjunct1, rule_format, OF c2]
  note e3 = t3 [THEN conjunct1, rule_format, OF c3]
  note e4 = t4 [THEN conjunct2, THEN conjunct1, rule_format, OF c4]
  note e5 = t5 [THEN conjunct2, THEN conjunct2, THEN conjunct1, rule_format, OF c5]
  have a7: "?p7 ''action'' = Some ''update'' \<or> ?p7 ''action'' = Some ''delete''" by simp
  note t7 = faculty_update_delete_scoped [where u = bob and post = "?p7" and S = decimal_schema
      and d = campus, OF rb a7]
  note e7 = t7 [THEN conjunct2, THEN conjunct2, THEN conjunct2, rule_format,
      OF disjI1 [OF campus_bob_deletes]]
  from e7 obtain c where c:
    "Course_objects_get_owned decimal_schema campus (?p7 ''course_id'') bob = Inr c"
    "c \<in> set (course_rows campus)" "instructor c = user_id bob" by blast
  from c(1) campus_owned_1 have "c = logic" by simp
  with c campus_bob_deletes campus_owned_1
  have e8: "store (FacultyDashboardView_post decimal_schema campus bob ?p7) \<noteq> campus \<and>
      Course_objects_get_owned decimal_schema campus (Some ''1'') bob = Inr logic \<and>
      logic \<in> set (course_rows campus) \<and> instructor logic = user_id bob"
    by simp
  have e9: "FacultyDashboardView_post decimal_schema campus carol ?p1 =
     \<lparr>response = Redirect ''faculty-dashboard'', flashes = [Failure ''Course not found''],
      logged_in = None, store = campus\<rparr>"
    by (rule e1)
  show ?thesis using e8 e9 rc rb ni unfolding e2 e3 e4 e5 by simp
qed

text \<open>
  The claim as worded fails on the empty course id and on an unreadable one: neither
  names a course, yet the first is skipped without any message and the second, on
  \<^verbatim>\<open>update\<close>, reports the field's exception rather than \<^verbatim>\<open>Course not found\<close>.
\<close>

theorem faculty_course_id_counterexample:
  "role bob = ''Faculty'' \<and>
   FacultyDashboardView_post decimal_schema campus bob
     (map_of [(''action'', ''delete''), (''course_id'', '''')]) =
     \<lparr>response = Redirect ''faculty-dashboard'', flashes = [], logged_in = None,
      store = campus\<rparr> \<and>
   FacultyDashboardView_post decimal_schema campus bob
     (map_of [(''action'', ''update''), (''course_id'', '''')]) =
     \<lparr>response = Redirect ''faculty-dashboard'', flashes = [], logged_in = None,
      store = campus\<rparr> \<and>
   flashes (FacultyDashboardView_post decimal_schema campus bob
     (map_of [(''action'', ''delete''), (''course_id'', '''')])) \<noteq> [Failure ''Course not found''] \<and>
   Course_objects_get_owned decimal_schema campus (Some ''abc'') bob = Inl (ValueError ''abc'') \<and>
   FacultyDashboardView_post decimal_schema campus bob
     (map_of [(''action'', ''update''), (''course_id'', ''abc'')]) =
     \<lparr>response = Redirect ''faculty-dashboard'', flashes = [Failure_of (ValueError ''abc'')],
      logged_in = None, store = campus\<rparr> \<and>
   flashes (FacultyDashboardView_post decimal_schema campus bob
     (map_of [(''action'', ''update''), (''course_id'', ''abc'')])) \<noteq> [Failure ''Course not found'']"
proof -
  have r: "role bob = ''Faculty''" by (simp add: bob_def)
  have g: "Course_objects_get_owned decimal_schema campus (Some ''abc'') bob
      = Inl (ValueError ''abc'')"
    by (simp add: Course_objects_get_owned_def decimal_schema_def decimal_abc)
  have 1: "FacultyDashboardView_post decimal_schema campus bob
     (map_of [(''action'', ''delete''), (''course_id'', '''')]) =
     \<lparr>response = Redirect ''faculty-dashboard'', flashes = [], logged_in = None,
      store = campus\<rparr>"
    using r by (simp add: FacultyDashboardView_post_def truthy_def)
  have 2: "FacultyDashboardView_post decimal_schema campus bob
     (map_of [(''action'', ''update''), (''course_id'', '''')]) =
     \<lparr>response = Redirect ''faculty-dashboard'', flashes = [], logged_in = None,
      store = campus\<rparr>"
    using r by (simp add: FacultyDashboardView_post_def truthy_def)
  have 3: "FacultyDashboardView_post decimal_schema campus bob
     (map_of [(''action'', ''update''), (''course_id'', ''abc'')]) =
     \<lparr>response = Redirect ''faculty-dashboard'', flashes = [Failure_of (ValueError ''abc'')],
      logged_in = None, store = campus\<rparr>"
    using r g by (simp add: FacultyDashboardView_post_def truthy_def)
  show ?thesis unfolding 1 2 3 using r g by simp
qed

subsection \<open>An update keeps the instructor\<close>

text \<open>
  Claim C8. Take a store in which each course key names one course. A faculty user's POST
  with action \<^verbatim>\<open>update\<close> leaves every course's key and every course's instructor as they
  were, row by row, and leaves the users and the student profiles untouched: whatever
  the update changes, it changes among the name, the code and the credits of courses.
  And if no course of the store has a key above the last key issued, then after any
  sequence of requests to the views a course with the key of a course of the first store
  has the instructor of that course: as long as a course exists, its instructor is the
  one it was created with.
\<close>

theorem update_keeps_instructor:
  assumes "course_ids_unique d"
  shows
    "(role u = ''Faculty'' \<and> post ''action'' = Some ''update'' \<longrightarrow>
        map course_id (course_rows (store (FacultyDashboardView_post S d u post)))
          = map course_id (course_rows d) \<and>
        map instructor (course_rows (store (FacultyDashboardView_post S d u post)))
          = map instructor (course_rows d) \<and>
        users (store (FacultyDashboardView_post S d u post)) = users d \<and>
        students (store (FacultyDashboardView_post S d u post)) = students d) \<and>
     (course_keys_issued d \<longrightarrow>
        (\<forall>rs. \<forall>c\<in>set (course_rows d). \<forall>c'\<in>set (course_rows (serve S d rs)).
           course_id c' = course_id c \<longrightarrow> instructor c' = instructor c))"
proof (rule conjI; intro impI allI ballI)
  assume "role u = ''Faculty'' \<and> post ''action'' = Some ''update''"
  then have fac: "role u = ''Faculty''" and upd: "post ''action'' = Some ''update''"
    by simp_all
  have saved: "map course_id (course_rows d1) = map course_id (course_rows d) \<and>
      map instructor (course_rows d1) = map instructor (course_rows d) \<and>
      users d1 = users d \<and> students d1 = students d"
    if g: "Course_objects_get_owned S d (post ''course_id'') u = Inr c"
      and s: "update_course S d c post = Inr d1" for c d1
  proof -
    from get_owned_InrD [OF g] have m: "c \<in> set (course_rows d)" by simp
    from update_course_InrD [OF s] obtain c' where c':
      "d1 = course_save d c'" "course_id c' = course_id c" "instructor c' = instructor c"
      by blast
    show ?thesis
      unfolding c'(1)
      using save_keeps_ids [of d c'] save_keeps_instructors [OF assms m c'(2) c'(3)]
      by (simp add: course_save_def)
  qed
  note out = faculty_update_eq [where S = S and d = d and u = u and post = post, OF fac upd]
  show "map course_id (course_rows (store (FacultyDashboardView_post S d u post)))
          = map course_id (course_rows d) \<and>
        map instructor (course_rows (store (FacultyDashboardView_post S d u post)))
          = map instructor (course_rows d) \<and>
        users (store (FacultyDashboardView_post S d u post)) = users d \<and>
        students (store (FacultyDashboardView_post S d u post)) = students d"
  proof (cases "truthy (post ''course_id'')")
    case False
    then show ?thesis unfolding out by simp
  next
    case True
    show ?thesis
    proof (cases "Course_objects_get_owned S d (post ''course_id'') u")
      case (Inl e)
      with True show ?thesis unfolding out by simp
    next
      case (Inr c)
      show ?thesis
      proof (cases "update_course S d c post")
        case Inl
        with True Inr show ?thesis unfolding out by simp
      next
        case (Inr d1)
        with True \<open>Course_objects_get_owned S d (post ''course_id'') u = Inr c\<close>
          saved [OF \<open>Course_objects_get_owned S d (post ''course_id'') u = Inr c\<close> Inr]
        show ?thesis unfolding out by simp
      qed
    qed
  qed
next
  fix rs c c'
  assume "course_keys_issued d" "c \<in> set (course_rows d)"
    "c' \<in> set (course_rows (serve S d rs))" "course_id c' = course_id c"
  with kept_serve [of d S rs] assms show "instructor c' = instructor c"
    by (rule kept_instructor)
qed

theorem update_keeps_instructor_witness:
  "role bob = ''Faculty'' \<and> course_ids_unique campus \<and> course_keys_issued campus \<and>
   map instructor (course_rows campus) = [3, 3, 4] \<and>
   map instructor (course_rows (store (FacultyDashboardView_post decimal_schema campus bob
     (map_of [(''action'', ''update''), (''course_id'', ''1''), (''name'', ''Logic II'')]))))
     = [3, 3, 4] \<and>
   logic \<in> set (course_rows campus) \<and>
   hd (course_rows (serve decimal_schema campus
     [(Some 3, Faculty_post (map_of [(''action'', ''update''), (''course_id'', ''1''),
                                     (''name'', ''Logic II'')]))]))
     \<in> set (course_rows (serve decimal_schema campus
     [(Some 3, Faculty_post (map_of [(''action'', ''update''), (''course_id'', ''1''),
                                     (''name'', ''Logic II'')]))])) \<and>
   course_name (hd (course_rows (serve decimal_schema campus
     [(Some 3, Faculty_post (map_of [(''action'', ''update''), (''course_id'', ''1''),
                                     (''name'', ''Logic II'')]))]))) = ''Logic II'' \<and>
   course_id (hd (course_rows (serve decimal_schema campus
     [(Some 3, Faculty_post (map_of [(''action'', ''update''), (''course_id'', ''1''),
                                     (''name'', ''Logic II'')]))]))) = course_id logic \<and>
   instructor (hd (course_rows (serve decimal_schema campus
     [(Some 3, Faculty_post (map_of [(''action'', ''update''), (''course_id'', ''1''),
                                     (''name'', ''Logic II'')]))]))) = instructor logic"
proof -
  let ?p = "map_of [(''action'', ''update''), (''course_id'', ''1''), (''name'', ''Logic II'')]"
  let ?rs = "[(Some 3, Faculty_post ?p)]"
  have r: "role bob = ''Faculty'' \<and> ?p ''action'' = Some ''update''" by (simp add: bob_def)
  have i: "map instructor (course_rows campus) = [3, 3, 4]"
    by (simp add: campus_def logic_def algebra_def optics_def)
  have m: "logic \<in> set (course_rows campus)" by (simp add: campus_def)
  have h: "hd (course_rows (serve decimal_schema campus ?rs))
      \<in> set (course_rows (serve decimal_schema campus ?rs))"
    and n: "course_name (hd (course_rows (serve decimal_schema campus ?rs))) = ''Logic II''"
    and k: "course_id (hd (course_rows (serve decimal_schema campus ?rs))) = course_id logic"
    unfolding campus_renamed by (simp_all add: logic_def)
  note t = update_keeps_instructor [where d = campus and S = decimal_schema and u = bob
      and post = "?p", OF campus_unique]
  note t1 = t [THEN conjunct1, rule_format, OF r]
  note t2 = t [THEN conjunct2, rule_format, OF campus_issued m h k]
  from t1 r campus_unique campus_issued i m h n k t2 show ?thesis by simp
qed

subsection \<open>An update overwrites the submitted fields only\<close>

text \<open>
  Claim C9. Take a faculty user's POST with action \<^verbatim>\<open>update\<close> whose course id resolves
  to a course \<open>c\<close> of the requester. Either the update succeeds and saves a course with
  the key and the instructor of \<open>c\<close>, in which each of name, code and credits is the
  submitted one if the form has that field and the stored one of \<open>c\<close> if the form has it
  not; or the form has a credits text that the field cannot read, the update fails with
  the field's exception, and the store is as before. The courses with another key are as
  before in both.
\<close>

theorem update_overwrites_submitted_fields:
  assumes "role u = ''Faculty''" "post ''action'' = Some ''update''"
    "truthy (post ''course_id'')"
    "Course_objects_get_owned S d (post ''course_id'') u = Inr c"
  shows
    "((\<exists>c'. FacultyDashboardView_post S d u post =
           \<lparr>response = Redirect ''faculty-dashboard'',
            flashes = [Success ''Course updated successfully''],
            logged_in = None, store = course_save d c'\<rparr> \<and>
         course_id c' = course_id c \<and> instructor c' = instructor c \<and>
         course_name c' = (case post ''name'' of None \<Rightarrow> course_name c | Some t \<Rightarrow> t) \<and>
         course_code c' = (case post ''code'' of None \<Rightarrow> course_code c | Some t \<Rightarrow> t) \<and>
         (case post ''credits'' of None \<Rightarrow> credits c' = credits c
          | Some t \<Rightarrow> credits_of_text S t = Inr (credits c'))) \<or>
      (\<exists>t e. post ''credits'' = Some t \<and> credits_of_text S t = Inl e \<and>
         FacultyDashboardView_post S d u post =
           \<lparr>response = Redirect ''faculty-dashboard'',
            flashes = (if e = DoesNotExist then [Failure ''Course not found'']
                       else [Failure_of e]),
            logged_in = None, store = d\<rparr>)) \<and>
     filter (\<lambda>r. course_id r \<noteq> course_id c)
         (course_rows (store (FacultyDashboardView_post S d u post)))
       = filter (\<lambda>r. course_id r \<noteq> course_id c) (course_rows d)"
proof (cases "update_course S d c post")
  case (Inl e)
  then have out: "FacultyDashboardView_post S d u post =
      \<lparr>response = Redirect ''faculty-dashboard'',
       flashes = (if e = DoesNotExist then [Failure ''Course not found''] else [Failure_of e]),
       logged_in = None, store = d\<rparr>"
    using assms by (simp add: faculty_update_eq)
  from update_course_InlD [OF Inl] show ?thesis unfolding out by auto
next
  case (Inr d1)
  then have out: "FacultyDashboardView_post S d u post =
      \<lparr>response = Redirect ''faculty-dashboard'',
       flashes = [Success ''Course updated successfully''],
       logged_in = None, store = d1\<rparr>"
    using assms by (simp add: faculty_update_eq)
  from update_course_InrD [OF Inr] obtain c' where c':
    "d1 = course_save d c'" "course_id c' = course_id c" "instructor c' = instructor c"
    "course_name c' = (case post ''name'' of None \<Rightarrow> course_name c | Some t \<Rightarrow> t)"
    "course_code c' = (case post ''code'' of None \<Rightarrow> course_code c | Some t \<Rightarrow> t)"
    "(case post ''credits'' of None \<Rightarrow> credits c' = credits c
      | Some t \<Rightarrow> credits_of_text S t = Inr (credits c'))"
    by blast
  have g: "filter (\<lambda>r. course_id r \<noteq> course_id c) (course_rows (course_save d c'))
       = filter (\<lambda>r. course_id r \<noteq> course_id c) (course_rows d)"
    using filter_replaced [OF c'(2)] by (simp add: course_save_def)
  show ?thesis
    unfolding out c'(1) using g c'(2-6) by (intro conjI disjI1 exI [of _ c']) simp_all
qed

theorem update_overwrites_submitted_fields_witness:
  "role bob = ''Faculty'' \<and>
   Course_objects_get_owned decimal_schema campus (Some ''1'') bob = Inr logic \<and>
   FacultyDashboardView_post decimal_schema campus bob
     (map_of [(''action'', ''update''), (''course_id'', ''1''), (''name'', ''Logic II'')]) =
     \<lparr>response = Redirect ''faculty-dashboard'',
      flashes = [Success ''Course updated successfully''], logged_in = None,
      store = campus\<lparr>course_rows :=
        [\<lparr>course_id = 1, course_name = ''Logic II'', course_code = ''L101'', credits = 4,
          instructor = 3\<rparr>, algebra, optics]\<rparr>\<rparr>"
proof -
  let ?p = "map_of [(''action'', ''update''), (''course_id'', ''1''), (''name'', ''Logic II'')]"
  have r: "role bob = ''Faculty''" by (simp add: bob_def)
  have a: "?p ''action'' = Some ''update''" and t: "truthy (?p ''course_id'')"
    by (simp_all add: truthy_def)
  have g: "Course_objects_get_owned decimal_schema campus (?p ''course_id'') bob = Inr logic"
    using campus_owned_1 by simp
  have n: "?p ''name'' = Some ''Logic II''" "?p ''code'' = None" "?p ''credits'' = None"
    by simp_all
  from update_overwrites_submitted_fields [where u = bob and post = "?p" and d = campus
      and S = decimal_schema and c = logic, OF r a t g]
  obtain c' where c': "FacultyDashboardView_post decimal_schema campus bob ?p =
           \<lparr>response = Redirect ''faculty-dashboard'',
            flashes = [Success ''Course updated successfully''],
            logged_in = None, store = course_save campus c'\<rparr>"
    "course_id c' = course_id logic" "instructor c' = instructor logic"
    "course_name c' = ''Logic II''" "course_code c' = course_code logic"
    "credits c' = credits logic"
    unfolding n by auto
  from c'(2-6) have eq: "c' = \<lparr>course_id = 1, course_name = ''Logic II'', course_code = ''L101'',
      credits = 4, instructor = 3\<rparr>"
    by (cases c') (simp add: logic_def)
  have sv: "course_save campus \<lparr>course_id = 1, course_name = ''Logic II'',
      course_code = ''L101'', credits = 4, instructor = 3\<rparr> =
      campus\<lparr>course_rows :=
        [\<lparr>course_id = 1, course_name = ''Logic II'', course_code = ''L101'', credits = 4,
          instructor = 3\<rparr>, algebra, optics]\<rparr>"
    by (simp add: course_save_def campus_def logic_def algebra_def optics_def)
  show ?thesis using r campus_owned_1 c'(1) unfolding eq sv by simp
qed

end
